theory Spec2Isabelle
  imports Complex_Main "HOL-Library.AList"
begin

section \<open>Values exchanged with the broker\<close>

text \<open>
  The client (\<^verbatim>\<open>nbapi.py\<close>, class \<^verbatim>\<open>NationalBank\<close>) sends and receives JSON. A decoded
  JSON value is a Python object: \<^verbatim>\<open>None\<close>, a bool, an int, a float, a str, a list or a
  dict with string keys. A dict is an association list in insertion order; a store into
  it is \<open>AList.update\<close> (an existing key keeps its place, a new key goes to the end),
  which is what a Python dict does. Floats are only passed through, never computed with.
  Strings are ASCII text.
\<close>

datatype json =
    JNull
  | JBool bool
  | JInt int
  | JFloat real
  | JStr string
  | JList "json list"
  | JObj "(string \<times> json) list"

text \<open>
  What the code can raise. The source raises plain \<^verbatim>\<open>Exception(message)\<close>; the other
  constructors are the interpreter's and the libraries' own exceptions, and
  \<open>TransportError\<close> stands for anything the HTTP session raises (connection failure, a
  body that is not JSON).
\<close>

datatype error =
    KeyError
  | IndexError
  | TypeError
  | UnboundLocalError
  | OverflowError
  | AttributeError
  | TransportError
  | Exception string

definition bnd :: "error + 'a \<Rightarrow> ('a \<Rightarrow> error + 'b) \<Rightarrow> error + 'b" where
  "bnd x f = (case x of Inl e \<Rightarrow> Inl e | Inr v \<Rightarrow> f v)"

subsection \<open>Python's operations on these values\<close>

text \<open>\<^verbatim>\<open>obj[key]\<close> with a string key: a dict looks the key up (KeyError when absent);
  a list or a str wants an integer index and anything else is not subscriptable
  (TypeError).\<close>

definition getitem :: "json \<Rightarrow> string \<Rightarrow> error + json" where
  "getitem obj k =
     (case obj of
        JObj kvs \<Rightarrow> (case map_of kvs k of None \<Rightarrow> Inl KeyError | Some v \<Rightarrow> Inr v)
      | _ \<Rightarrow> Inl TypeError)"

text \<open>\<^verbatim>\<open>obj[i]\<close> with an integer index; a negative index counts from the end. A dict
  decoded from JSON has only string keys, so an integer key is a KeyError.\<close>

definition position :: "nat \<Rightarrow> int \<Rightarrow> nat option" where
  "position n i =
     (if 0 \<le> i \<and> i < int n then Some (nat i)
      else if i < 0 \<and> - int n \<le> i then Some (nat (int n + i))
      else None)"

definition getindex :: "json \<Rightarrow> int \<Rightarrow> error + json" where
  "getindex obj i =
     (case obj of
        JList xs \<Rightarrow>
          (case position (length xs) i of None \<Rightarrow> Inl IndexError | Some k \<Rightarrow> Inr (xs ! k))
      | JStr s \<Rightarrow>
          (case position (length s) i of None \<Rightarrow> Inl IndexError | Some k \<Rightarrow> Inr (JStr [s ! k]))
      | JObj kvs \<Rightarrow> Inl KeyError
      | _ \<Rightarrow> Inl TypeError)"

text \<open>\<^verbatim>\<open>obj[key]\<close> where the key is itself a decoded value (the currency code read from
  the response in \<^verbatim>\<open>get_positions\<close>). A list or dict key is unhashable.\<close>

definition getitem_dyn :: "json \<Rightarrow> json \<Rightarrow> error + json" where
  "getitem_dyn obj key =
     (case key of
        JStr k \<Rightarrow> getitem obj k
      | JInt i \<Rightarrow> getindex obj i
      | JBool b \<Rightarrow> getindex obj (if b then 1 else 0)
      | JList _ \<Rightarrow> Inl TypeError
      | JObj _ \<Rightarrow> Inl TypeError
      | _ \<Rightarrow> (case obj of JObj _ \<Rightarrow> Inl KeyError | _ \<Rightarrow> Inl TypeError))"

text \<open>\<^verbatim>\<open>obj[key] = v\<close> with a string key.\<close>

definition setitem :: "json \<Rightarrow> string \<Rightarrow> json \<Rightarrow> error + json" where
  "setitem obj k v =
     (case obj of
        JObj kvs \<Rightarrow> Inr (JObj (AList.update k v kvs))
      | _ \<Rightarrow> Inl TypeError)"

text \<open>\<^verbatim>\<open>for item in obj\<close>: the elements of a list, the keys of a dict, the characters
  of a str.\<close>

definition iterate :: "json \<Rightarrow> error + json list" where
  "iterate obj =
     (case obj of
        JList xs \<Rightarrow> Inr xs
      | JObj kvs \<Rightarrow> Inr (map (\<lambda>kv. JStr (fst kv)) kvs)
      | JStr s \<Rightarrow> Inr (map (\<lambda>c. JStr [c]) s)
      | _ \<Rightarrow> Inl TypeError)"

text \<open>\<^verbatim>\<open>len(obj)\<close>.\<close>

definition len :: "json \<Rightarrow> error + nat" where
  "len obj =
     (case obj of
        JList xs \<Rightarrow> Inr (length xs)
      | JObj kvs \<Rightarrow> Inr (length kvs)
      | JStr s \<Rightarrow> Inr (length s)
      | _ \<Rightarrow> Inl TypeError)"

text \<open>Substring test on strings, \<^verbatim>\<open>needle in haystack\<close>.\<close>

fun starts_with :: "string \<Rightarrow> string \<Rightarrow> bool" where
  "starts_with [] ys = True"
| "starts_with (x # xs) [] = False"
| "starts_with (x # xs) (y # ys) = (x = y \<and> starts_with xs ys)"

fun substring :: "string \<Rightarrow> string \<Rightarrow> bool" where
  "substring xs [] = (xs = [])"
| "substring xs (y # ys) = (starts_with xs (y # ys) \<or> substring xs ys)"

text \<open>\<^verbatim>\<open>needle in obj\<close> for a str needle: substring of a str, element of a list (a str
  equals only an equal str), key of a dict.\<close>

definition str_in :: "string \<Rightarrow> json \<Rightarrow> error + bool" where
  "str_in needle obj =
     (case obj of
        JStr s \<Rightarrow> Inr (substring needle s)
      | JList xs \<Rightarrow> Inr (JStr needle \<in> set xs)
      | JObj kvs \<Rightarrow> Inr (needle \<in> fst ` set kvs)
      | _ \<Rightarrow> Inl TypeError)"

text \<open>\<^verbatim>\<open>str.upper()\<close>, \<^verbatim>\<open>str.lower()\<close> and \<^verbatim>\<open>str.title()\<close> on ASCII text. \<^verbatim>\<open>title\<close> puts a
  letter in upper case when the character before it is not a letter and in lower case
  when it is.\<close>

definition lower_letters :: string where
  "lower_letters = ''abcdefghijklmnopqrstuvwxyz''"

definition upper_letters :: string where
  "upper_letters = ''ABCDEFGHIJKLMNOPQRSTUVWXYZ''"

definition is_lower :: "char \<Rightarrow> bool" where
  "is_lower c = (c \<in> set lower_letters)"

definition is_upper :: "char \<Rightarrow> bool" where
  "is_upper c = (c \<in> set upper_letters)"

definition upper_char :: "char \<Rightarrow> char" where
  "upper_char c = (case map_of (zip lower_letters upper_letters) c of Some u \<Rightarrow> u | None \<Rightarrow> c)"

definition lower_char :: "char \<Rightarrow> char" where
  "lower_char c = (case map_of (zip upper_letters lower_letters) c of Some l \<Rightarrow> l | None \<Rightarrow> c)"

definition upper :: "string \<Rightarrow> string" where
  "upper s = map upper_char s"

fun title_from :: "bool \<Rightarrow> string \<Rightarrow> string" where
  "title_from prev_cased [] = []"
| "title_from prev_cased (c # cs) =
     (if prev_cased then lower_char c else upper_char c)
       # title_from (is_lower c \<or> is_upper c) cs"

definition title :: "string \<Rightarrow> string" where
  "title s = title_from False s"

text \<open>\<^verbatim>\<open>str(n)\<close> for an int: decimal digits, with a minus sign when negative.\<close>

definition digit :: "nat \<Rightarrow> char" where
  "digit d = ''0123456789'' ! (d mod 10)"

fun str_nat :: "nat \<Rightarrow> string" where
  "str_nat n = (if n < 10 then [digit n] else str_nat (n div 10) @ [digit n])"

declare str_nat.simps [simp del]

definition str_int :: "int \<Rightarrow> string" where
  "str_int i = (if i < 0 then CHR ''-'' # str_nat (nat (- i)) else str_nat (nat i))"

text \<open>\<^verbatim>\<open>s.split(sep)\<close> with a one-character separator: the fields between the
  separators, always at least one.\<close>

fun split_on :: "char \<Rightarrow> string \<Rightarrow> string list" where
  "split_on sep [] = [[]]"
| "split_on sep (c # cs) =
     (if c = sep then [] # split_on sep cs
      else (case split_on sep cs of
              f # fs \<Rightarrow> (c # f) # fs
            | [] \<Rightarrow> [[c]]))"

subsection \<open>Dates\<close>

text \<open>
  A \<^verbatim>\<open>datetime\<close> is modelled by the proleptic Gregorian ordinal of its date (day 1 is
  0001-01-01, as \<^verbatim>\<open>toordinal()\<close> counts); the time of day is carried along unchanged by
  every operation used here and never read. The last representable date is 9999-12-31.
  Adding a \<^verbatim>\<open>timedelta(days=n)\<close> raises OverflowError when \<open>n\<close> is beyond 999999999 in
  magnitude or the sum leaves the representable range.
\<close>

definition MAXORDINAL :: int where
  "MAXORDINAL = 3652059"

definition valid_date :: "int \<Rightarrow> bool" where
  "valid_date d = (1 \<le> d \<and> d \<le> MAXORDINAL)"

definition date_add :: "int \<Rightarrow> int \<Rightarrow> error + int" where
  "date_add d n =
     (if n < - 999999999 \<or> 999999999 < n then Inl OverflowError
      else if 0 < d + n \<and> d + n \<le> MAXORDINAL then Inr (d + n)
      else Inl OverflowError)"

text \<open>\<^verbatim>\<open>weekday()\<close>: Monday is 0, Saturday 5, Sunday 6.\<close>

definition weekday :: "int \<Rightarrow> int" where
  "weekday d = (d + 6) mod 7"

text \<open>Year, month and day of an ordinal, as the datetime library computes them.\<close>

definition days_before_month :: "int \<Rightarrow> int" where
  "days_before_month m =
     [0, 0, 31, 59, 90, 120, 151, 181, 212, 243, 273, 304, 334] ! nat m"

definition days_in_month :: "int \<Rightarrow> int" where
  "days_in_month m =
     [0, 31, 28, 31, 30, 31, 30, 31, 31, 30, 31, 30, 31] ! nat m"

definition ord2ymd :: "int \<Rightarrow> int \<times> int \<times> int" where
  "ord2ymd ordinal =
     (let n = ordinal - 1;
          n400 = n div 146097; n = n mod 146097;
          n100 = n div 36524; n = n mod 36524;
          n4 = n div 1461; n = n mod 1461;
          n1 = n div 365; n = n mod 365;
          year = n400 * 400 + 1 + n100 * 100 + n4 * 4 + n1
      in if n1 = 4 \<or> n100 = 4 then (year - 1, 12, 31)
         else
           (let leapyear = (n1 = 3 \<and> (n4 \<noteq> 24 \<or> n100 = 3));
                month = (n + 50) div 32;
                preceding = days_before_month month + (if 2 < month \<and> leapyear then 1 else 0)
            in if n < preceding
               then (let month' = month - 1;
                         preceding' = preceding - (days_in_month month'
                                         + (if month' = 2 \<and> leapyear then 1 else 0))
                     in (year, month', n - preceding' + 1))
               else (year, month, n - preceding + 1)))"

text \<open>\<^verbatim>\<open>strftime('%Y-%m-%d')\<close>: four digits of year, two of month, two of day (a year
  below 1000 is padded with zeros, as the library documents it).\<close>

definition strftime :: "int \<Rightarrow> string" where
  "strftime d =
     (case ord2ymd d of (y, m, dd) \<Rightarrow>
        [digit (nat y div 1000), digit (nat y div 100), digit (nat y div 10), digit (nat y),
         CHR ''-'', digit (nat m div 10), digit (nat m),
         CHR ''-'', digit (nat dd div 10), digit (nat dd)])"

section \<open>The HTTP session\<close>

text \<open>
  The session is the only thing the client shares with the outside. It is modelled by
  the list of requests sent so far and by the broker, a function that answers a request
  (knowing the earlier ones) with the decoded JSON body of its response, or with the
  exception the transport raised. Every operation below takes the list of requests sent
  before it and returns, next to its result, the list after it.
\<close>

datatype http_method = GET | POST | DELETE

record request =
  meth :: http_method
  url :: string
  body :: "json option"

type_synonym server = "request list \<Rightarrow> request \<Rightarrow> error + json"

text \<open>\<^verbatim>\<open>self.session.get(url).json()\<close>, \<^verbatim>\<open>self.session.post(url=url, json=data).json()\<close>.\<close>

definition send :: "server \<Rightarrow> request list \<Rightarrow> request \<Rightarrow> (error + json) \<times> request list" where
  "send srv sent req = (srv sent req, sent @ [req])"

section \<open>Account Resolver: \<^verbatim>\<open>get_account_id\<close>\<close>

definition account_url :: string where
  "account_url = ''https://orion-api.bnc.ca/orion-api/v1/1/portfolios''"

definition account_not_found :: error where
  "account_not_found = Exception ''Error! Unabel to find account''"

text \<open>The loop of lines 142-146; \<^verbatim>\<open>and\<close> evaluates its right operand only when the left
  one is true.\<close>

fun find_account :: "string \<Rightarrow> string \<Rightarrow> json list \<Rightarrow> error + json" where
  "find_account currency_type account_type [] = Inl account_not_found"
| "find_account currency_type account_type (item # items) =
     (case getitem item ''acctTypeDesc'' of
        Inl e \<Rightarrow> Inl e
      | Inr desc \<Rightarrow>
          (case str_in currency_type desc of
             Inl e \<Rightarrow> Inl e
           | Inr has_currency \<Rightarrow>
               if has_currency
               then (case str_in account_type desc of
                       Inl e \<Rightarrow> Inl e
                     | Inr has_type \<Rightarrow>
                         if has_type then getitem item ''acctNo''
                         else find_account currency_type account_type items)
               else find_account currency_type account_type items))"

definition get_account_id ::
  "server \<Rightarrow> request list \<Rightarrow> string \<Rightarrow> string \<Rightarrow> (error + json) \<times> request list" where
  "get_account_id srv sent currency_type account_type =
     (let currency_type = upper currency_type;
          account_type = title account_type
      in case send srv sent \<lparr>meth = GET, url = account_url, body = None\<rparr> of
           (r, sent') \<Rightarrow>
             (bnd r (\<lambda>j.
              bnd (getitem j ''data'') (\<lambda>d.
              bnd (getindex d 0) (\<lambda>p.
              bnd (getitem p ''accountList'') (\<lambda>response.
              bnd (iterate response) (\<lambda>items.
              find_account currency_type account_type items))))), sent'))"

section \<open>Order Validator: \<^verbatim>\<open>validate\<close>\<close>

definition validation_url :: string where
  "validation_url = ''https://orion-api.bnc.ca/orion-api/v1/1/stock-orders/validation''"

definition order_rejected :: error where
  "order_rejected = Exception ''An Error Has Occured When Attempting to process your order.''"

definition representative_text :: string where
  "representative_text = ''your order will be processed by one of our representatives''"

text \<open>Lines 200-203. The local \<^verbatim>\<open>country\<close> is bound in two branches only; \<open>None\<close> is the
  local left unbound.\<close>

definition country_of :: "string \<Rightarrow> string option" where
  "country_of currency =
     (if currency = ''USD'' then Some ''USA''
      else if currency = ''CAD'' then Some ''CAN''
      else None)"

text \<open>Lines 205-208; \<open>JNull\<close> is \<^verbatim>\<open>None\<close>.\<close>

definition price_type :: "json \<Rightarrow> string" where
  "price_type limit_price = (if limit_price \<noteq> JNull then ''SPECIFIC'' else ''MARKET'')"

text \<open>Lines 218-221, on the date \<open>d\<close> that today plus the offset gave.\<close>

definition roll_weekend :: "int \<Rightarrow> error + int" where
  "roll_weekend d =
     (let day = weekday d
      in if day = 5 then date_add d 2
         else if day = 6 then date_add d 1
         else Inr d)"

text \<open>Lines 210-223: the pair \<^verbatim>\<open>(expiry, expiry_date)\<close>. \<open>today\<close> is what
  \<^verbatim>\<open>datetime.today()\<close> returns.\<close>

definition expiry_of :: "int \<Rightarrow> int \<Rightarrow> error + (string \<times> json)" where
  "expiry_of today days_till_expiration =
     (if days_till_expiration = 0 then Inr (''DAY'', JNull)
      else bnd (date_add today days_till_expiration) (\<lambda>d.
           bnd (roll_weekend d) (\<lambda>expiry_date.
           Inr (''DATE'', JStr (strftime expiry_date)))))"

text \<open>Lines 227-250: the dict \<^verbatim>\<open>validation_data\<close>, from the locals it reads.\<close>

definition request_body ::
  "string \<Rightarrow> string \<Rightarrow> string \<Rightarrow> string \<Rightarrow> json \<Rightarrow> string \<Rightarrow> string \<Rightarrow> string \<Rightarrow> json
     \<Rightarrow> string \<Rightarrow> json" where
  "request_body account_id side qty expiry expiry_date symbol currency country limit_price type =
     JObj
       [(''stockOrder'', JObj
          [(''ordId'', JNull),
           (''acctNo'', JStr account_id),
           (''operation'', JStr side),
           (''ordQty'', JStr qty),
           (''expiry'', JStr expiry),
           (''expiryDt'', expiry_date),
           (''restriction'', JStr ''NONE''),
           (''phone'', JStr ''000-000-0000''),
           (''finInstrument'', JObj
              [(''marketSymbol'', JObj
                  [(''symbolCd'', JStr symbol),
                   (''symbolCurrCd'', JStr currency),
                   (''symbolCntryCd'', JStr country)]),
               (''finInstrumentTypeCd'', JStr ''STOCK'')]),
           (''limitPrice'', limit_price),
           (''priceType'', JStr type),
           (''stopLimitPrice'', JNull)]),
        (''mode'', JStr ''INSERT'')]"

text \<open>Lines 195-250: the locals and then the body of the validation request. Reading
  the unbound \<^verbatim>\<open>country\<close> at line 241 raises UnboundLocalError.\<close>

definition validation_data ::
  "int \<Rightarrow> string \<Rightarrow> string \<Rightarrow> int \<Rightarrow> string \<Rightarrow> string \<Rightarrow> json \<Rightarrow> int \<Rightarrow> error + json" where
  "validation_data today account_id side qty symbol currency limit_price days_till_expiration =
     (let symbol = upper symbol;
          currency = upper currency;
          side = upper side;
          qty = str_int qty;
          country = country_of currency;
          type = price_type limit_price
      in bnd (expiry_of today days_till_expiration) (\<lambda>(expiry, expiry_date).
         case country of
           None \<Rightarrow> Inl UnboundLocalError
         | Some country \<Rightarrow>
             Inr (request_body account_id side qty expiry expiry_date symbol currency country
                    limit_price type)))"

text \<open>The loop of lines 260-264, with \<^verbatim>\<open>warning_list\<close> as accumulator.\<close>

fun scan_messages :: "json list \<Rightarrow> json list \<Rightarrow> error + json list" where
  "scan_messages [] warning_list = Inr warning_list"
| "scan_messages (item # items) warning_list =
     (case getitem item ''message'' of
        Inl e \<Rightarrow> Inl e
      | Inr message \<Rightarrow>
          (case str_in representative_text message of
             Inl e \<Rightarrow> Inl e
           | Inr found \<Rightarrow>
               if found then Inl order_rejected
               else (case getitem item ''msgId'' of
                       Inl e \<Rightarrow> Inl e
                     | Inr msg_id \<Rightarrow> scan_messages items (warning_list @ [msg_id]))))"

text \<open>Lines 254-270: from the decoded validation response to the returned
  \<^verbatim>\<open>order_data\<close>.\<close>

definition read_validation :: "json \<Rightarrow> string \<Rightarrow> error + json" where
  "read_validation response phone =
     bnd (getitem response ''data'') (\<lambda>d.
     bnd (getitem d ''stockOrder'') (\<lambda>stock_order.
     bnd (str_in ''messageList'' response) (\<lambda>has_messages.
     bnd (if has_messages
          then bnd (getitem response ''messageList'') (\<lambda>message_list.
               bnd (iterate message_list) (\<lambda>items.
               bnd (scan_messages items []) (\<lambda>warning_list.
               Inr [(''stockOrder'', stock_order), (''warnsNoList'', JList warning_list)])))
          else Inr [(''stockOrder'', stock_order)]) (\<lambda>order_data.
     bnd (setitem stock_order ''phone'' (JStr phone)) (\<lambda>stock_order'.
     Inr (JObj (AList.update ''stockOrder'' stock_order' order_data)))))))"

definition validate ::
  "server \<Rightarrow> int \<Rightarrow> request list \<Rightarrow> string \<Rightarrow> string \<Rightarrow> int \<Rightarrow> string \<Rightarrow> string \<Rightarrow> string
     \<Rightarrow> json \<Rightarrow> int \<Rightarrow> (error + json) \<times> request list" where
  "validate srv today sent account_id side qty symbol currency phone limit_price
       days_till_expiration =
     (case validation_data today account_id side qty symbol currency limit_price
             days_till_expiration of
        Inl e \<Rightarrow> (Inl e, sent)
      | Inr data \<Rightarrow>
          (case send srv sent \<lparr>meth = POST, url = validation_url, body = Some data\<rparr> of
             (r, sent') \<Rightarrow> (bnd r (\<lambda>response. read_validation response phone), sent')))"

section \<open>Order Submitter\<close>

definition order_url :: string where
  "order_url = ''https://orion-api.bnc.ca/orion-api/v1/1/stock-orders''"

text \<open>Lines 297-301 and 331-335, the same in both operations: post \<^verbatim>\<open>order_data\<close>
  and read the order id.\<close>

definition submit :: "server \<Rightarrow> request list \<Rightarrow> json \<Rightarrow> (error + json) \<times> request list" where
  "submit srv sent order_data =
     (case send srv sent \<lparr>meth = POST, url = order_url, body = Some order_data\<rparr> of
        (r, sent') \<Rightarrow>
          (bnd r (\<lambda>j.
           bnd (getitem j ''data'') (\<lambda>response.
           bnd (getitem response ''stockOrder'') (\<lambda>stock_order.
           bnd (getitem stock_order ''ordId'') (\<lambda>ord_id.
           Inr (JObj [(''order_id'', ord_id)]))))), sent'))"

definition place_market_order ::
  "server \<Rightarrow> int \<Rightarrow> request list \<Rightarrow> string \<Rightarrow> string \<Rightarrow> string \<Rightarrow> string \<Rightarrow> int \<Rightarrow> string
     \<Rightarrow> (error + json) \<times> request list" where
  "place_market_order srv today sent symbol account_id currency side qty phone =
     (case validate srv today sent account_id side qty symbol currency phone JNull 0 of
        (Inl e, sent') \<Rightarrow> (Inl e, sent')
      | (Inr order_data, sent') \<Rightarrow> submit srv sent' order_data)"

definition place_limit_order ::
  "server \<Rightarrow> int \<Rightarrow> request list \<Rightarrow> string \<Rightarrow> string \<Rightarrow> string \<Rightarrow> string \<Rightarrow> int \<Rightarrow> string
     \<Rightarrow> json \<Rightarrow> int \<Rightarrow> (error + json) \<times> request list" where
  "place_limit_order srv today sent symbol account_id currency side qty phone limit_price
       days_till_expiration =
     (case validate srv today sent account_id side qty symbol currency phone limit_price
             days_till_expiration of
        (Inl e, sent') \<Rightarrow> (Inl e, sent')
      | (Inr order_data, sent') \<Rightarrow> submit srv sent' order_data)"

definition orders_url :: "string \<Rightarrow> string" where
  "orders_url account_id = ''https://orion-api.bnc.ca/orion-api/v1/1/orders?acctNo='' @ account_id"

definition order_not_found :: error where
  "order_not_found = Exception ''Order not Found.''"

text \<open>\<^verbatim>\<open>self.session.get(order_url).json()['data']['orderList']\<close>, lines 401 and 440.\<close>

definition fetch_orders ::
  "server \<Rightarrow> request list \<Rightarrow> string \<Rightarrow> (error + json) \<times> request list" where
  "fetch_orders srv sent account_id =
     (case send srv sent \<lparr>meth = GET, url = orders_url account_id, body = None\<rparr> of
        (r, sent') \<Rightarrow>
          (bnd r (\<lambda>j. bnd (getitem j ''data'') (\<lambda>d. getitem d ''orderList'')), sent'))"

text \<open>Lines 403-408: \<^verbatim>\<open>order_info\<close> starts as the empty list and becomes the first item
  whose \<^verbatim>\<open>ordId\<close> equals \<^verbatim>\<open>order_id\<close>.\<close>

fun find_order :: "string \<Rightarrow> json list \<Rightarrow> error + json" where
  "find_order order_id [] = Inr (JList [])"
| "find_order order_id (item # items) =
     (case getitem item ''ordId'' of
        Inl e \<Rightarrow> Inl e
      | Inr v \<Rightarrow> if v = JStr order_id then Inr item else find_order order_id items)"

text \<open>Lines 413-420.\<close>

definition order_fields :: "json \<Rightarrow> error + json" where
  "order_fields order_info =
     bnd (getitem order_info ''ordId'') (\<lambda>a.
     bnd (getitem order_info ''operation'') (\<lambda>b.
     bnd (getitem order_info ''ordQty'') (\<lambda>c.
     bnd (getitem order_info ''execQty'') (\<lambda>d.
     bnd (getitem order_info ''avgExecPrice'') (\<lambda>e.
     bnd (getitem order_info ''orderOpen'') (\<lambda>f.
     Inr (JObj [(''order_id'', a), (''operation'', b), (''order_quantity'', c),
                (''filled_quantity'', d), (''fill_price'', e), (''order_open'', f)])))))))"

definition get_order ::
  "server \<Rightarrow> request list \<Rightarrow> string \<Rightarrow> string \<Rightarrow> (error + json) \<times> request list" where
  "get_order srv sent account_id order_id =
     (case fetch_orders srv sent account_id of
        (r, sent') \<Rightarrow>
          (bnd r (\<lambda>response.
           bnd (iterate response) (\<lambda>items.
           bnd (find_order order_id items) (\<lambda>order_info.
           bnd (len order_info) (\<lambda>n.
           if n = 0 then Inl order_not_found else order_fields order_info)))), sent'))"

text \<open>The loop of lines 442-446.\<close>

fun find_order_status :: "string \<Rightarrow> json list \<Rightarrow> error + json" where
  "find_order_status order_id [] = Inl order_not_found"
| "find_order_status order_id (item # items) =
     (case getitem item ''ordId'' of
        Inl e \<Rightarrow> Inl e
      | Inr v \<Rightarrow>
          if v = JStr order_id then getitem item ''orderOpen''
          else find_order_status order_id items)"

definition get_order_status ::
  "server \<Rightarrow> request list \<Rightarrow> string \<Rightarrow> string \<Rightarrow> (error + json) \<times> request list" where
  "get_order_status srv sent account_id order_id =
     (case fetch_orders srv sent account_id of
        (r, sent') \<Rightarrow>
          (bnd r (\<lambda>response.
           bnd (iterate response) (\<lambda>items.
           find_order_status order_id items)), sent'))"

section \<open>Position Reporter: \<^verbatim>\<open>get_positions\<close>\<close>

definition pos_url :: "string \<Rightarrow> string" where
  "pos_url account_id =
     ''https://orion-api.bnc.ca/orion-api/v1/1/accounts/assetsDetail?acctNo='' @ account_id"

definition no_positions :: error where
  "no_positions = Exception ''Error! No Positions Found.''"

text \<open>\<^verbatim>\<open>key.split(';')[1]\<close>, line 480; only a str has \<^verbatim>\<open>split\<close>.\<close>

definition symbol_of_key :: "json \<Rightarrow> error + string" where
  "symbol_of_key key =
     (case key of
        JStr s \<Rightarrow>
          (case split_on (CHR '';'') s of
             _ # second # _ \<Rightarrow> Inr second
           | _ \<Rightarrow> Inl IndexError)
      | _ \<Rightarrow> Inl AttributeError)"

text \<open>Lines 480-488: the key and the value stored for one position.\<close>

definition position_entry :: "json \<Rightarrow> error + (string \<times> json)" where
  "position_entry item =
     bnd (getitem item ''finInstrument'') (\<lambda>fin.
     bnd (getitem fin ''quoteIdKey'') (\<lambda>key.
     bnd (symbol_of_key key) (\<lambda>symbol.
     bnd (getitem item ''positionEval'') (\<lambda>eval.
     bnd (getitem item ''quantity'') (\<lambda>a.
     bnd (getitem eval ''avgCostPrice'') (\<lambda>b.
     bnd (getitem eval ''pnlAmt'') (\<lambda>c.
     bnd (getitem eval ''pnlPerc'') (\<lambda>d.
     bnd (getitem eval ''marketValueAmt'') (\<lambda>e.
     Inr (symbol, JObj [(''quantity'', a), (''cost'', b), (''change'', c),
                        (''change_per'', d), (''market_val'', e)]))))))))))"

text \<open>The loop of lines 479-488, with \<^verbatim>\<open>return_dict\<close> as accumulator.\<close>

fun fill_positions :: "json list \<Rightarrow> (string \<times> json) list \<Rightarrow> error + (string \<times> json) list" where
  "fill_positions [] return_dict = Inr return_dict"
| "fill_positions (item # items) return_dict =
     (case position_entry item of
        Inl e \<Rightarrow> Inl e
      | Inr (symbol, entry) \<Rightarrow> fill_positions items (AList.update symbol entry return_dict))"

text \<open>Lines 472-474: the position list of the account's own currency.\<close>

definition position_list :: "json \<Rightarrow> error + json" where
  "position_list j =
     bnd (getitem j ''data'') (\<lambda>d.
     bnd (getitem d ''accountAssetDetailList'') (\<lambda>l.
     bnd (getindex l 0) (\<lambda>response.
     bnd (getitem response ''account'') (\<lambda>account.
     bnd (getitem account ''acctCurrCd'') (\<lambda>currency.
     bnd (getitem response ''assetsDetailByCurrencyList'') (\<lambda>by_currency.
     bnd (getitem_dyn by_currency currency) (\<lambda>detail.
     getitem detail ''positionList'')))))))"

definition get_positions ::
  "server \<Rightarrow> request list \<Rightarrow> string \<Rightarrow> (error + json) \<times> request list" where
  "get_positions srv sent account_id =
     (case send srv sent \<lparr>meth = GET, url = pos_url account_id, body = None\<rparr> of
        (r, sent') \<Rightarrow>
          (bnd r (\<lambda>j.
           bnd (position_list j) (\<lambda>pos_list.
           bnd (len pos_list) (\<lambda>n.
           if n = 0 then Inl no_positions
           else bnd (iterate pos_list) (\<lambda>items.
                bnd (fill_positions items []) (\<lambda>return_dict.
                Inr (JObj return_dict)))))), sent'))"

section \<open>Reading decoded values in statements\<close>

text \<open>The value under a chain of dict keys, when every step is a dict that has the key.\<close>

fun at_path :: "json \<Rightarrow> string list \<Rightarrow> json option" where
  "at_path j [] = Some j"
| "at_path j (k # ks) =
     (case j of
        JObj kvs \<Rightarrow> (case map_of kvs k of None \<Rightarrow> None | Some v \<Rightarrow> at_path v ks)
      | _ \<Rightarrow> None)"

text \<open>The same, with \<^verbatim>\<open>None\<close> where the chain breaks; read only where it does not.\<close>

definition value_at :: "json \<Rightarrow> string list \<Rightarrow> json" where
  "value_at j path = (case at_path j path of Some v \<Rightarrow> v | None \<Rightarrow> JNull)"

section \<open>The requests of the client\<close>

text \<open>The request \<^verbatim>\<open>get_account_id\<close> sends.\<close>

definition accounts_request :: request where
  "accounts_request = \<lparr>meth = GET, url = account_url, body = None\<rparr>"

text \<open>The request \<^verbatim>\<open>validate\<close> posts for a body.\<close>

definition validation_request :: "json \<Rightarrow> request" where
  "validation_request data = \<lparr>meth = POST, url = validation_url, body = Some data\<rparr>"

text \<open>The request \<^verbatim>\<open>place_market_order\<close> and \<^verbatim>\<open>place_limit_order\<close> post for a payload.\<close>

definition order_request :: "json \<Rightarrow> request" where
  "order_request order_data = \<lparr>meth = POST, url = order_url, body = Some order_data\<rparr>"

text \<open>The request \<^verbatim>\<open>get_order\<close> and \<^verbatim>\<open>get_order_status\<close> send.\<close>

definition orders_request :: "string \<Rightarrow> request" where
  "orders_request account_id = \<lparr>meth = GET, url = orders_url account_id, body = None\<rparr>"

text \<open>The request \<^verbatim>\<open>get_positions\<close> sends.\<close>

definition positions_request :: "string \<Rightarrow> request" where
  "positions_request account_id = \<lparr>meth = GET, url = pos_url account_id, body = None\<rparr>"

section \<open>Shapes of the broker's answers\<close>

text \<open>
  The client reads the decoded answers key by key and raises KeyError, TypeError and the
  like on an answer of another shape. The predicates below say which entries have the
  keys a loop of the client reads, and name what it reads there.
\<close>

text \<open>An entry of the account list as the loop reads it: a dict with a str under
  \<^verbatim>\<open>acctTypeDesc\<close> and some value under \<^verbatim>\<open>acctNo\<close>.\<close>

definition well_formed_account :: "json \<Rightarrow> bool" where
  "well_formed_account a =
     (case at_path a [''acctTypeDesc''] of
        Some (JStr d) \<Rightarrow> at_path a [''acctNo''] \<noteq> None
      | _ \<Rightarrow> False)"

text \<open>The description of the account contains both strings (line 143).\<close>

definition account_matches :: "string \<Rightarrow> string \<Rightarrow> json \<Rightarrow> bool" where
  "account_matches currency_type account_type a =
     (case at_path a [''acctTypeDesc''] of
        Some (JStr d) \<Rightarrow> substring currency_type d \<and> substring account_type d
      | _ \<Rightarrow> False)"

text \<open>A message of a validation response as the loop reads it: a dict with a str under
  \<^verbatim>\<open>message\<close> and some value under \<^verbatim>\<open>msgId\<close>.\<close>

definition well_formed_message :: "json \<Rightarrow> bool" where
  "well_formed_message m =
     (case at_path m [''message''] of
        Some (JStr s) \<Rightarrow> at_path m [''msgId''] \<noteq> None
      | _ \<Rightarrow> False)"

text \<open>The message mentions processing by a representative (line 261).\<close>

definition mentions_representative :: "json \<Rightarrow> bool" where
  "mentions_representative m =
     (case at_path m [''message''] of
        Some (JStr s) \<Rightarrow> substring representative_text s
      | _ \<Rightarrow> False)"

text \<open>Its warning code.\<close>

definition msg_id :: "json \<Rightarrow> json" where
  "msg_id m = (case at_path m [''msgId''] of Some v \<Rightarrow> v | None \<Rightarrow> JNull)"

text \<open>The entry's \<^verbatim>\<open>ordId\<close> equals the requested id (lines 406 and 443).\<close>

definition is_order :: "string \<Rightarrow> json \<Rightarrow> bool" where
  "is_order order_id item = (at_path item [''ordId''] = Some (JStr order_id))"

text \<open>The entry has the six keys that \<^verbatim>\<open>get_order\<close> projects.\<close>

definition well_formed_order :: "json \<Rightarrow> bool" where
  "well_formed_order item =
     (\<forall>k\<in>set [''ordId'', ''operation'', ''ordQty'', ''execQty'', ''avgExecPrice'', ''orderOpen''].
        at_path item [k] \<noteq> None)"

text \<open>A position as the loop reads it: a str under \<^verbatim>\<open>finInstrument.quoteIdKey\<close> with
  at least two fields between semicolons, and the five values that are reported.\<close>

definition well_formed_position :: "json \<Rightarrow> bool" where
  "well_formed_position item =
     ((case at_path item [''finInstrument'', ''quoteIdKey''] of
         Some (JStr key) \<Rightarrow> 2 \<le> length (split_on (CHR '';'') key)
       | _ \<Rightarrow> False)
      \<and> (\<forall>path\<in>set [[''quantity''], [''positionEval'', ''avgCostPrice''],
                       [''positionEval'', ''pnlAmt''], [''positionEval'', ''pnlPerc''],
                       [''positionEval'', ''marketValueAmt'']].
            at_path item path \<noteq> None))"

text \<open>The second semicolon-delimited field of the instrument key.\<close>

definition symbol_of :: "json \<Rightarrow> string" where
  "symbol_of item =
     (case at_path item [''finInstrument'', ''quoteIdKey''] of
        Some (JStr key) \<Rightarrow> split_on (CHR '';'') key ! 1
      | _ \<Rightarrow> [])"

text \<open>Quantity, average cost, P&L amount, P&L percentage and market value of a
  position, under the keys of the result.\<close>

definition summary_of :: "json \<Rightarrow> json" where
  "summary_of item =
     JObj [(''quantity'', value_at item [''quantity'']),
           (''cost'', value_at item [''positionEval'', ''avgCostPrice'']),
           (''change'', value_at item [''positionEval'', ''pnlAmt'']),
           (''change_per'', value_at item [''positionEval'', ''pnlPerc'']),
           (''market_val'', value_at item [''positionEval'', ''marketValueAmt''])]"

section \<open>Validation before submission\<close>

text \<open>
  How placing an order relates to validating it, for the outcome \<open>validated\<close> of
  \<^verbatim>\<open>validate\<close> and the outcome \<open>placed\<close> of the placing operation, both started after the
  requests \<open>sent\<close>. If validation raised, placing raised the same and sent what
  validation sent, with no request to the order endpoint. If validation returned a
  payload, validation sent exactly the validation request, placing then posted exactly
  that payload to the order endpoint, and when the broker's answer has
  \<^verbatim>\<open>data.stockOrder.ordId\<close> placing returned it as \<^verbatim>\<open>order_id\<close>.
\<close>

definition submits_validated ::
  "server \<Rightarrow> request list \<Rightarrow> (error + json) \<times> request list \<Rightarrow> (error + json) \<times> request list
     \<Rightarrow> bool" where
  "submits_validated srv sent validated placed =
     (case fst validated of
        Inl e \<Rightarrow>
          placed = validated
          \<and> (\<forall>r\<in>set (drop (length sent) (snd placed)). url r \<noteq> order_url)
      | Inr order_data \<Rightarrow>
          (\<exists>data. snd validated = sent @ [validation_request data])
          \<and> snd placed = snd validated @ [order_request order_data]
          \<and> (\<forall>j ord_id.
                srv (snd validated) (order_request order_data) = Inr j
                \<and> at_path j [''data'', ''stockOrder'', ''ordId''] = Some ord_id \<longrightarrow>
                fst placed = Inr (JObj [(''order_id'', ord_id)])))"

section \<open>A broker for the examples\<close>

text \<open>A broker that answers by the URL alone, from a table of decoded bodies; a URL it
  does not know fails in the transport.\<close>

definition answering :: "(string \<times> json) list \<Rightarrow> server" where
  "answering table sent req =
     (case map_of table (url req) of None \<Rightarrow> Inl TransportError | Some j \<Rightarrow> Inr j)"

section \<open>Basic facts\<close>

lemmas str_defs = upper_def upper_char_def lower_char_def is_lower_def is_upper_def lower_letters_def upper_letters_def title_def

lemmas date_defs = strftime_def ord2ymd_def days_before_month_def days_in_month_def Let_def

lemmas json_defs = getitem_def getindex_def getitem_dyn_def setitem_def iterate_def len_def str_in_def position_def

lemmas eval_defs = validate_def validation_data_def expiry_of_def roll_weekend_def date_add_def weekday_def MAXORDINAL_def valid_date_def
   country_of_def price_type_def str_int_def str_nat.simps digit_def request_body_def send_def answering_def validation_request_def

lemma bnd_Inr [simp]: "bnd (Inr v) f = f v" by (simp add: bnd_def)

lemma bnd_Inl [simp]: "bnd (Inl e) f = Inl e" by (simp add: bnd_def)

lemma bnd_eq_Inr: "bnd x f = Inr y \<longleftrightarrow> (\<exists>v. x = Inr v \<and> f v = Inr y)"
  by (cases x) simp_all

lemma at_path_single: "at_path j [k] = Some v \<longleftrightarrow> getitem j k = Inr v"
  by (auto simp: getitem_def split: json.splits option.splits)

lemma at_path_two:
  "at_path j [k, k'] = Some v \<longleftrightarrow> (\<exists>w. getitem j k = Inr w \<and> getitem w k' = Inr v)"
  by (cases j) (auto simp: getitem_def split: option.splits json.splits)

lemma at_path_three:
  "at_path j [k, k', k''] = Some v \<longleftrightarrow>
     (\<exists>w w'. getitem j k = Inr w \<and> getitem w k' = Inr w' \<and> getitem w' k'' = Inr v)"
proof -
  have "at_path j [k, k', k''] = Some v \<longleftrightarrow> (\<exists>w. getitem j k = Inr w \<and> at_path w [k', k''] = Some v)"
    by (cases j) (auto simp: getitem_def split: option.splits)
  then show ?thesis unfolding at_path_two by blast
qed

lemma getitem_value_at:
  assumes "at_path item [k] \<noteq> None"
  shows "getitem item k = Inr (value_at item [k])"
proof -
  from assms obtain v where a: "at_path item [k] = Some v" by blast
  then have "value_at item [k] = v" by (simp only: value_at_def option.case)
  moreover from a have "getitem item k = Inr v" by (simp only: at_path_single)
  ultimately show ?thesis by simp
qed

lemma str_in_key: "at_path j [k] = Some v \<Longrightarrow> str_in k j = Inr True"
  by (auto simp: str_in_def split: json.splits option.splits dest!: map_of_SomeD intro!: image_eqI[where x="(k, v)"])

subsection \<open>Strings\<close>

lemma starts_with_iff: "starts_with xs ys \<longleftrightarrow> (\<exists>ss. ys = xs @ ss)"
  by (induction xs ys rule: starts_with.induct) auto

lemma substring_iff: "substring xs ys \<longleftrightarrow> (\<exists>ps ss. ys = ps @ xs @ ss)"
proof (induction ys)
  case Nil
  then show ?case by auto
next
  case (Cons y ys)
  show ?case
  proof
    assume "substring xs (y # ys)"
    then consider "starts_with xs (y # ys)" | "substring xs ys" by auto
    then show "\<exists>ps ss. y # ys = ps @ xs @ ss"
    proof cases
      case 1
      then obtain ss where "y # ys = xs @ ss" unfolding starts_with_iff by blast
      then have "y # ys = [] @ xs @ ss" by simp
      then show ?thesis by blast
    next
      case 2
      then obtain ps ss where "ys = ps @ xs @ ss" using Cons.IH by blast
      then have "y # ys = (y # ps) @ xs @ ss" by simp
      then show ?thesis by blast
    qed
  next
    assume "\<exists>ps ss. y # ys = ps @ xs @ ss"
    then obtain ps ss where e: "y # ys = ps @ xs @ ss" by blast
    show "substring xs (y # ys)"
    proof (cases ps)
      case Nil
      with e have "starts_with xs (y # ys)" unfolding starts_with_iff by auto
      then show ?thesis by simp
    next
      case (Cons p ps')
      with e have "ys = ps' @ xs @ ss" by simp
      then have "substring xs ys" using Cons.IH by blast
      then show ?thesis by simp
    qed
  qed
qed

lemma split_on_not_Nil: "split_on sep s \<noteq> []"
  by (induction s) (auto split: list.splits)

lemma split_on_no_sep: "sep \<notin> set s \<Longrightarrow> split_on sep s = [s]"
  by (induction s) auto

lemma split_on_append:
  "sep \<notin> set a \<Longrightarrow> split_on sep (a @ sep # rest) = a # split_on sep rest"
  by (induction a) (auto split: list.splits)

lemma split_on_second:
  assumes "sep \<notin> set a" and "sep \<notin> set b"
  shows "split_on sep (a @ sep # b) ! 1 = b"
    and "split_on sep (a @ sep # b @ sep # rest) ! 1 = b"
  using assms by (simp_all add: split_on_append split_on_no_sep)

lemma digit_is_digit: "digit n \<in> set ''0123456789''"
proof -
  have "n mod 10 < length ''0123456789''" by simp
  then show ?thesis unfolding digit_def by (rule nth_mem)
qed

subsection \<open>Dates\<close>

lemma strftime_shape:
  "\<exists>y1 y2 y3 y4 m1 m2 d1 d2.
     strftime d = [y1, y2, y3, y4, CHR ''-'', m1, m2, CHR ''-'', d1, d2]
     \<and> (\<forall>c\<in>set [y1, y2, y3, y4, m1, m2, d1, d2]. c \<in> set ''0123456789'')"
proof -
  obtain y m dd where o: "ord2ymd d = (y, m, dd)" by (cases "ord2ymd d")
  have "strftime d =
        [digit (nat y div 1000), digit (nat y div 100), digit (nat y div 10), digit (nat y),
         CHR ''-'', digit (nat m div 10), digit (nat m),
         CHR ''-'', digit (nat dd div 10), digit (nat dd)]"
    by (simp add: strftime_def o)
  moreover have "\<forall>c\<in>set [digit (nat y div 1000), digit (nat y div 100), digit (nat y div 10),
                         digit (nat y), digit (nat m div 10), digit (nat m),
                         digit (nat dd div 10), digit (nat dd)]. c \<in> set ''0123456789''"
    using digit_is_digit by (simp only: list.set ball_simps)
  ultimately show ?thesis by blast
qed

lemma strftime_examples:
  "strftime 1 = ''0001-01-01''"
  "strftime 730179 = ''2000-02-29''"
  "strftime 739923 = ''2026-11-03''"
  "strftime 3652059 = ''9999-12-31''"
  by (simp_all add: date_defs digit_def)

lemma saturday_room: "valid_date d \<Longrightarrow> weekday d = 5 \<Longrightarrow> d + 2 \<le> MAXORDINAL"
  unfolding valid_date_def weekday_def MAXORDINAL_def by presburger

lemma sunday_room: "valid_date d \<Longrightarrow> weekday d = 6 \<Longrightarrow> d + 1 \<le> MAXORDINAL"
  unfolding valid_date_def weekday_def MAXORDINAL_def by presburger

lemma roll_weekend_ok:
  assumes "valid_date d"
  shows "roll_weekend d = Inr (if weekday d = 5 then d + 2 else if weekday d = 6 then d + 1 else d)"
  using assms saturday_room[OF assms] sunday_room[OF assms]
  by (auto simp: roll_weekend_def date_add_def Let_def valid_date_def)

lemma rolled_not_weekend:
  "weekday (if weekday d = 5 then d + 2 else if weekday d = 6 then d + 1 else d) \<noteq> 5 \<and>
   weekday (if weekday d = 5 then d + 2 else if weekday d = 6 then d + 1 else d) \<noteq> 6"
  unfolding weekday_def by presburger

lemma date_add_pos:
  "valid_date t \<Longrightarrow> 0 < n \<Longrightarrow> date_add t n = (if t + n \<le> MAXORDINAL then Inr (t + n) else Inl OverflowError)"
  by (auto simp: date_add_def valid_date_def MAXORDINAL_def)

lemma date_add_error: "date_add d n = Inl e \<Longrightarrow> e = OverflowError"
  by (auto simp: date_add_def split: if_splits)

lemma roll_weekend_error: "roll_weekend d = Inl e \<Longrightarrow> e = OverflowError"
  by (auto simp: roll_weekend_def Let_def split: if_splits dest: date_add_error)

lemma expiry_of_zero: "expiry_of today 0 = Inr (''DAY'', JNull)"
  by (simp add: expiry_of_def)

lemma expiry_of_pos:
  assumes "valid_date today" "0 < days"
  shows "expiry_of today days =
    (if today + days \<le> MAXORDINAL
     then Inr (''DATE'', JStr (strftime (if weekday (today + days) = 5 then today + days + 2
                  else if weekday (today + days) = 6 then today + days + 1 else today + days)))
     else Inl OverflowError)"
proof (cases "today + days \<le> MAXORDINAL")
  case True
  then have v: "valid_date (today + days)" using assms by (simp add: valid_date_def)
  show ?thesis using assms True roll_weekend_ok[OF v]
    by (simp add: expiry_of_def date_add_pos)
next
  case False
  then show ?thesis using assms by (simp add: expiry_of_def date_add_pos)
qed

lemma expiry_of_error: "expiry_of today days = Inl e \<Longrightarrow> e = OverflowError"
  unfolding expiry_of_def
  by (cases "date_add today days"; cases "roll_weekend (projr (date_add today days))")
     (auto split: if_splits dest: date_add_error roll_weekend_error)

lemma expiry_of_Inr:
  "expiry_of today days = Inr (expiry, ed) \<Longrightarrow>
     (days = 0 \<and> expiry = ''DAY'' \<and> ed = JNull) \<or> (days \<noteq> 0 \<and> expiry = ''DATE'' \<and> (\<exists>s. ed = JStr s))"
  unfolding expiry_of_def
  by (auto simp: bnd_eq_Inr split: if_splits)

section \<open>The account lookup\<close>

lemma well_formed_accountD:
  assumes "well_formed_account a"
  obtains d n where "getitem a ''acctTypeDesc'' = Inr (JStr d)" "getitem a ''acctNo'' = Inr n"
    "account_matches c t a = (substring c d \<and> substring t d)" "value_at a [''acctNo''] = n"
proof -
  from assms obtain d n where a: "at_path a [''acctTypeDesc''] = Some (JStr d)"
    "at_path a [''acctNo''] = Some n"
    unfolding well_formed_account_def by (auto split: option.splits json.splits)
  then have "getitem a ''acctTypeDesc'' = Inr (JStr d)" "getitem a ''acctNo'' = Inr n"
    by (simp_all only: at_path_single)
  moreover have "account_matches c t a = (substring c d \<and> substring t d)" "value_at a [''acctNo''] = n"
    using a by (simp_all only: account_matches_def value_at_def option.case json.case)
  ultimately show ?thesis by (rule that)
qed

lemma find_account_wf:
  assumes "\<forall>a\<in>set accounts. well_formed_account a"
  shows "find_account c t accounts =
           (case List.find (account_matches c t) accounts of
              None \<Rightarrow> Inl account_not_found
            | Some a \<Rightarrow> Inr (value_at a [''acctNo'']))"
  using assms
proof (induction accounts)
  case Nil
  then show ?case by simp
next
  case (Cons a accounts)
  then have "well_formed_account a" by simp
  then obtain d n where g: "getitem a ''acctTypeDesc'' = Inr (JStr d)" "getitem a ''acctNo'' = Inr n"
    "account_matches c t a = (substring c d \<and> substring t d)" "value_at a [''acctNo''] = n"
    by (rule well_formed_accountD)
  from Cons have ih: "find_account c t accounts =
           (case List.find (account_matches c t) accounts of
              None \<Rightarrow> Inl account_not_found
            | Some a \<Rightarrow> Inr (value_at a [''acctNo'']))" by simp
  show ?case using g ih by (simp add: str_in_def)
qed

text \<open>
  Claim C6. Let the broker answer with an account list (under \<^verbatim>\<open>data[0].accountList\<close>)
  of well-formed entries. \<^verbatim>\<open>get_account_id\<close> returns the \<^verbatim>\<open>acctNo\<close> of the first entry, in
  the order of the list, whose description contains both the currency in upper case and
  the account type in title case; when no entry does, it raises the exception of line 146
  (the spec's AccountNotFoundError).
\<close>

theorem get_account_id_first_match:
  assumes resp: "srv sent accounts_request = Inr response"
    and data: "at_path response [''data''] = Some (JList (portfolio # others))"
    and list: "at_path portfolio [''accountList''] = Some (JList accounts)"
    and wf: "\<forall>a\<in>set accounts. well_formed_account a"
  shows "get_account_id srv sent currency_type account_type =
           ((case List.find (account_matches (upper currency_type) (title account_type)) accounts of
               None \<Rightarrow> Inl account_not_found
             | Some a \<Rightarrow> Inr (value_at a [''acctNo''])),
            sent @ [accounts_request])"
proof -
  have d: "getitem response ''data'' = Inr (JList (portfolio # others))"
    using data by (simp only: at_path_single)
  have l: "getitem portfolio ''accountList'' = Inr (JList accounts)"
    using list by (simp only: at_path_single)
  have i: "getindex (JList (portfolio # others)) 0 = Inr portfolio"
    by (simp add: getindex_def position_def)
  show ?thesis
    using resp
    by (simp add: get_account_id_def Let_def send_def accounts_request_def[symmetric] d l i
          iterate_def find_account_wf[OF wf])
qed

text \<open>Four accounts of which the third and the fourth are cash accounts in US dollars;
  and a query that matches none.\<close>

theorem get_account_id_first_match_witness:
  "get_account_id
     (answering [(account_url,
        JObj [(''data'', JList [JObj [(''accountList'', JList
          [JObj [(''acctTypeDesc'', JStr ''Cash CAD''), (''acctNo'', JStr ''111'')],
           JObj [(''acctTypeDesc'', JStr ''Tfsa USD''), (''acctNo'', JStr ''222'')],
           JObj [(''acctTypeDesc'', JStr ''Cash USD''), (''acctNo'', JStr ''333'')],
           JObj [(''acctTypeDesc'', JStr ''Margin Cash USD''), (''acctNo'', JStr ''444'')]])]])])])
     [] ''usd'' ''cash''
   = (Inr (JStr ''333''), [accounts_request])
   \<and> get_account_id
     (answering [(account_url,
        JObj [(''data'', JList [JObj [(''accountList'', JList
          [JObj [(''acctTypeDesc'', JStr ''Cash CAD''), (''acctNo'', JStr ''111'')],
           JObj [(''acctTypeDesc'', JStr ''Tfsa USD''), (''acctNo'', JStr ''222'')],
           JObj [(''acctTypeDesc'', JStr ''Cash USD''), (''acctNo'', JStr ''333'')],
           JObj [(''acctTypeDesc'', JStr ''Margin Cash USD''), (''acctNo'', JStr ''444'')]])]])])])
     [] ''usd'' ''rrsp''
   = (Inl account_not_found, [accounts_request])"
proof -
  let ?accounts = "[JObj [(''acctTypeDesc'', JStr ''Cash CAD''), (''acctNo'', JStr ''111'')],
           JObj [(''acctTypeDesc'', JStr ''Tfsa USD''), (''acctNo'', JStr ''222'')],
           JObj [(''acctTypeDesc'', JStr ''Cash USD''), (''acctNo'', JStr ''333'')],
           JObj [(''acctTypeDesc'', JStr ''Margin Cash USD''), (''acctNo'', JStr ''444'')]]"
  let ?portfolio = "JObj [(''accountList'', JList ?accounts)]"
  let ?response = "JObj [(''data'', JList [?portfolio])]"
  have resp: "answering [(account_url, ?response)] [] accounts_request = Inr ?response"
    by (simp add: answering_def accounts_request_def)
  have data: "at_path ?response [''data''] = Some (JList (?portfolio # []))"
    and list: "at_path ?portfolio [''accountList''] = Some (JList ?accounts)"
    by simp_all
  have wf: "\<forall>a\<in>set ?accounts. well_formed_account a"
    by (simp add: well_formed_account_def)
  note t = get_account_id_first_match [where srv = "answering [(account_url, ?response)]" and sent = "[]",
      OF resp data list wf]
  from t [of "''usd''" "''cash''"] t [of "''usd''" "''rrsp''"]
  show ?thesis by (simp add: account_matches_def value_at_def str_defs)
qed

section \<open>The validation request\<close>

lemma country_of_None: "country_of c = None \<longleftrightarrow> c \<noteq> ''USD'' \<and> c \<noteq> ''CAD''"
  by (simp add: country_of_def)

lemma validation_data_Inr:
  "validation_data today account_id side qty symbol currency limit_price days = Inr data \<longleftrightarrow>
     (\<exists>expiry expiry_date country.
        expiry_of today days = Inr (expiry, expiry_date) \<and>
        country_of (upper currency) = Some country \<and>
        data = request_body account_id (upper side) (str_int qty) expiry expiry_date
                 (upper symbol) (upper currency) country limit_price (price_type limit_price))"
  unfolding validation_data_def Let_def
  by (cases "expiry_of today days"; cases "country_of (upper currency)") (auto split: prod.splits)

lemma validation_data_Inl:
  "validation_data today account_id side qty symbol currency limit_price days = Inl e \<longleftrightarrow>
     (expiry_of today days = Inl e \<or>
      ((\<exists>p. expiry_of today days = Inr p) \<and> country_of (upper currency) = None \<and> e = UnboundLocalError))"
  unfolding validation_data_def Let_def
  by (cases "expiry_of today days"; cases "country_of (upper currency)") (auto split: prod.splits)

lemma validate_sent:
  "snd (validate srv today sent account_id side qty symbol currency phone limit_price days) =
     (case validation_data today account_id side qty symbol currency limit_price days of
        Inl e \<Rightarrow> sent
      | Inr data \<Rightarrow> sent @ [validation_request data])"
  by (simp add: validate_def send_def validation_request_def split: sum.splits)

lemma validate_result:
  "fst (validate srv today sent account_id side qty symbol currency phone limit_price days) =
     bnd (validation_data today account_id side qty symbol currency limit_price days) (\<lambda>data.
     bnd (srv sent (validation_request data)) (\<lambda>response. read_validation response phone))"
  by (simp add: validate_def send_def validation_request_def split: sum.splits)

lemma validate_sent_cases:
  "snd (validate srv today sent account_id side qty symbol currency phone limit_price days) = sent
   \<and> (\<exists>e. fst (validate srv today sent account_id side qty symbol currency phone limit_price days) = Inl e)
   \<or> (\<exists>data. snd (validate srv today sent account_id side qty symbol currency phone limit_price days)
          = sent @ [validation_request data])"
  by (cases "validation_data today account_id side qty symbol currency limit_price days")
     (auto simp add: validate_sent validate_result)

lemma at_path_request_body:
  "at_path (request_body a s q e ed sy cu co lp ty) [''stockOrder'', ''operation''] = Some (JStr s)"
  "at_path (request_body a s q e ed sy cu co lp ty) [''stockOrder'', ''ordQty''] = Some (JStr q)"
  "at_path (request_body a s q e ed sy cu co lp ty) [''stockOrder'', ''acctNo''] = Some (JStr a)"
  "at_path (request_body a s q e ed sy cu co lp ty) [''stockOrder'', ''expiry''] = Some (JStr e)"
  "at_path (request_body a s q e ed sy cu co lp ty) [''stockOrder'', ''expiryDt''] = Some ed"
  "at_path (request_body a s q e ed sy cu co lp ty) [''stockOrder'', ''phone''] = Some (JStr ''000-000-0000'')"
  "at_path (request_body a s q e ed sy cu co lp ty) [''stockOrder'', ''limitPrice''] = Some lp"
  "at_path (request_body a s q e ed sy cu co lp ty) [''stockOrder'', ''priceType''] = Some (JStr ty)"
  "at_path (request_body a s q e ed sy cu co lp ty) [''stockOrder'', ''finInstrument'', ''marketSymbol'', ''symbolCd''] = Some (JStr sy)"
  "at_path (request_body a s q e ed sy cu co lp ty) [''stockOrder'', ''finInstrument'', ''marketSymbol'', ''symbolCurrCd''] = Some (JStr cu)"
  "at_path (request_body a s q e ed sy cu co lp ty) [''stockOrder'', ''finInstrument'', ''marketSymbol'', ''symbolCntryCd''] = Some (JStr co)"
  "at_path (request_body a s q e ed sy cu co lp ty) [''mode''] = Some (JStr ''INSERT'')"
  by (simp_all add: request_body_def)

text \<open>
  Claim C7. The body \<^verbatim>\<open>validate\<close> posts is a function of its arguments (and of the clock
  when an offset is given): \<^verbatim>\<open>operation\<close>, \<^verbatim>\<open>symbolCd\<close> and \<^verbatim>\<open>symbolCurrCd\<close> are the side,
  symbol and currency in upper case, \<^verbatim>\<open>ordQty\<close> is \<^verbatim>\<open>str(qty)\<close>, \<^verbatim>\<open>priceType\<close> is \<^verbatim>\<open>SPECIFIC\<close>
  when a limit price is given and \<^verbatim>\<open>MARKET\<close> when it is \<^verbatim>\<open>None\<close>, and \<^verbatim>\<open>expiry\<close> is \<^verbatim>\<open>DAY\<close>
  (and \<^verbatim>\<open>expiryDt\<close> is \<^verbatim>\<open>None\<close>) exactly when the offset is 0. The call
  \<^verbatim>\<open>validate(acct, "buy", 10, "aapl", "usd", phone)\<close> builds side \<^verbatim>\<open>BUY\<close>, quantity
  \<^verbatim>\<open>"10"\<close>, symbol \<^verbatim>\<open>AAPL\<close>, country \<^verbatim>\<open>USA\<close>, price type \<^verbatim>\<open>MARKET\<close> and expiry \<^verbatim>\<open>DAY\<close>.
\<close>

theorem validate_request_fields:
  "(validation_data today account_id side qty symbol currency limit_price days_till_expiration
      = Inr data \<longrightarrow>
      snd (validate srv today sent account_id side qty symbol currency phone limit_price
             days_till_expiration) = sent @ [validation_request data]
    \<and> at_path data [''stockOrder'', ''operation''] = Some (JStr (upper side))
    \<and> at_path data [''stockOrder'', ''ordQty''] = Some (JStr (str_int qty))
    \<and> at_path data [''stockOrder'', ''finInstrument'', ''marketSymbol'', ''symbolCd'']
        = Some (JStr (upper symbol))
    \<and> at_path data [''stockOrder'', ''finInstrument'', ''marketSymbol'', ''symbolCurrCd'']
        = Some (JStr (upper currency))
    \<and> at_path data [''stockOrder'', ''priceType'']
        = Some (JStr (if limit_price = JNull then ''MARKET'' else ''SPECIFIC''))
    \<and> (at_path data [''stockOrder'', ''expiry''] = Some (JStr ''DAY'')
          \<longleftrightarrow> days_till_expiration = 0)
    \<and> (at_path data [''stockOrder'', ''expiryDt''] = Some JNull
          \<longleftrightarrow> days_till_expiration = 0))
   \<and> validation_data today account_id ''buy'' 10 ''aapl'' ''usd'' JNull 0
       = Inr (request_body account_id ''BUY'' ''10'' ''DAY'' JNull ''AAPL'' ''USD'' ''USA'' JNull
                ''MARKET'')"
proof (intro conjI impI)
  show "validation_data today account_id ''buy'' 10 ''aapl'' ''usd'' JNull 0
       = Inr (request_body account_id ''BUY'' ''10'' ''DAY'' JNull ''AAPL'' ''USD'' ''USA'' JNull
                ''MARKET'')"
    by (simp add: validation_data_def expiry_of_def country_of_def price_type_def str_int_def
          str_nat.simps digit_def str_defs)
next
  assume vd: "validation_data today account_id side qty symbol currency limit_price
                days_till_expiration = Inr data"
  show "snd (validate srv today sent account_id side qty symbol currency phone limit_price
             days_till_expiration) = sent @ [validation_request data]"
    by (simp add: validate_sent vd)
  from vd obtain expiry expiry_date country where
    ex: "expiry_of today days_till_expiration = Inr (expiry, expiry_date)" and
    data: "data = request_body account_id (upper side) (str_int qty) expiry expiry_date
                 (upper symbol) (upper currency) country limit_price (price_type limit_price)"
    unfolding validation_data_Inr by auto
  show "at_path data [''stockOrder'', ''operation''] = Some (JStr (upper side))"
    and "at_path data [''stockOrder'', ''ordQty''] = Some (JStr (str_int qty))"
    and "at_path data [''stockOrder'', ''finInstrument'', ''marketSymbol'', ''symbolCd'']
        = Some (JStr (upper symbol))"
    and "at_path data [''stockOrder'', ''finInstrument'', ''marketSymbol'', ''symbolCurrCd'']
        = Some (JStr (upper currency))"
    unfolding data by (simp_all only: at_path_request_body)
  show "at_path data [''stockOrder'', ''priceType'']
        = Some (JStr (if limit_price = JNull then ''MARKET'' else ''SPECIFIC''))"
    unfolding data by (simp add: at_path_request_body price_type_def del: at_path.simps)
  from expiry_of_Inr[OF ex]
  show "at_path data [''stockOrder'', ''expiry''] = Some (JStr ''DAY'')
          \<longleftrightarrow> days_till_expiration = 0"
    unfolding data by (auto simp add: at_path_request_body simp del: at_path.simps)
  from expiry_of_Inr[OF ex]
  show "at_path data [''stockOrder'', ''expiryDt''] = Some JNull
          \<longleftrightarrow> days_till_expiration = 0"
    unfolding data by (auto simp add: at_path_request_body simp del: at_path.simps)
qed

text \<open>A limit sell order in Canadian dollars, good for the day.\<close>

theorem validate_request_fields_witness:
  "validation_data 739923 ''A1'' ''sell'' 25 ''ry'' ''cad'' (JFloat 150.5) 0
     = Inr (request_body ''A1'' ''SELL'' ''25'' ''DAY'' JNull ''RY'' ''CAD'' ''CAN'' (JFloat 150.5)
              ''SPECIFIC'')
   \<and> at_path (request_body ''A1'' ''SELL'' ''25'' ''DAY'' JNull ''RY'' ''CAD'' ''CAN'' (JFloat 150.5)
              ''SPECIFIC'') [''stockOrder'', ''priceType''] = Some (JStr ''SPECIFIC'')
   \<and> snd (validate (answering []) 739923 [] ''A1'' ''sell'' 25 ''ry'' ''cad'' ''514-555-0100''
            (JFloat 150.5) 0)
       = [validation_request (request_body ''A1'' ''SELL'' ''25'' ''DAY'' JNull ''RY'' ''CAD''
            ''CAN'' (JFloat 150.5) ''SPECIFIC'')]"
proof -
  have vd: "validation_data 739923 ''A1'' ''sell'' 25 ''ry'' ''cad'' (JFloat 150.5) 0
     = Inr (request_body ''A1'' ''SELL'' ''25'' ''DAY'' JNull ''RY'' ''CAD'' ''CAN'' (JFloat 150.5)
              ''SPECIFIC'')"
    by (simp add: validation_data_def expiry_of_def country_of_def price_type_def str_int_def
          str_nat.simps digit_def str_defs)
  from validate_request_fields [of 739923 "''A1''" "''sell''" 25 "''ry''" "''cad''" "JFloat 150.5" 0
       "request_body ''A1'' ''SELL'' ''25'' ''DAY'' JNull ''RY'' ''CAD'' ''CAN'' (JFloat 150.5) ''SPECIFIC''"
       "answering []" "[]" "''514-555-0100''"] vd
  show ?thesis by simp
qed

text \<open>
  Claim C1, as the code has it. With a positive offset, \<^verbatim>\<open>validate\<close> takes today plus the
  offset; when that date is still representable (no later than 9999-12-31) a Saturday
  is moved two days on, a Sunday one day on, any other day is kept, the result is never
  a Saturday or a Sunday, and its \<^verbatim>\<open>%Y-%m-%d\<close> form is the \<^verbatim>\<open>expiryDt\<close> of the request
  that is sent, with \<^verbatim>\<open>expiry\<close> \<^verbatim>\<open>DATE\<close>. When today plus the offset is not representable,
  \<^verbatim>\<open>validate\<close> raises OverflowError and sends nothing.
\<close>

theorem validate_expiry_date:
  assumes "valid_date today" and "0 < days_till_expiration"
  shows "let target = today + days_till_expiration;
             expiry_date = (if weekday target = 5 then target + 2
                            else if weekday target = 6 then target + 1
                            else target)
         in if target \<le> MAXORDINAL
            then expiry_of today days_till_expiration = Inr (''DATE'', JStr (strftime expiry_date))
               \<and> weekday expiry_date \<noteq> 5 \<and> weekday expiry_date \<noteq> 6
               \<and> (\<forall>data. validation_data today account_id side qty symbol currency limit_price
                             days_till_expiration = Inr data \<longrightarrow>
                     snd (validate srv today sent account_id side qty symbol currency phone
                            limit_price days_till_expiration) = sent @ [validation_request data]
                   \<and> at_path data [''stockOrder'', ''expiry''] = Some (JStr ''DATE'')
                   \<and> at_path data [''stockOrder'', ''expiryDt''] = Some (JStr (strftime expiry_date)))
            else validate srv today sent account_id side qty symbol currency phone limit_price
                   days_till_expiration = (Inl OverflowError, sent)"
proof -
  let ?t = "today + days_till_expiration"
  let ?e = "if weekday ?t = 5 then ?t + 2 else if weekday ?t = 6 then ?t + 1 else ?t"
  note ex = expiry_of_pos[OF assms]
  show ?thesis
  proof (cases "?t \<le> MAXORDINAL")
    case True
    have e1: "expiry_of today days_till_expiration = Inr (''DATE'', JStr (strftime ?e))"
      using ex True by simp
    have e2: "weekday ?e \<noteq> 5 \<and> weekday ?e \<noteq> 6" by (rule rolled_not_weekend)
    have e3: "\<forall>data. validation_data today account_id side qty symbol currency limit_price
                             days_till_expiration = Inr data \<longrightarrow>
                     snd (validate srv today sent account_id side qty symbol currency phone
                            limit_price days_till_expiration) = sent @ [validation_request data]
                   \<and> at_path data [''stockOrder'', ''expiry''] = Some (JStr ''DATE'')
                   \<and> at_path data [''stockOrder'', ''expiryDt''] = Some (JStr (strftime ?e))"
    proof (intro allI impI)
      fix data
      assume vd: "validation_data today account_id side qty symbol currency limit_price
                    days_till_expiration = Inr data"
      have s: "snd (validate srv today sent account_id side qty symbol currency phone
                 limit_price days_till_expiration) = sent @ [validation_request data]"
        by (simp add: validate_sent vd)
      from vd e1 obtain country where
        "data = request_body account_id (upper side) (str_int qty) ''DATE'' (JStr (strftime ?e))
                  (upper symbol) (upper currency) country limit_price (price_type limit_price)"
        unfolding validation_data_Inr by auto
      then have "at_path data [''stockOrder'', ''expiry''] = Some (JStr ''DATE'')"
        and "at_path data [''stockOrder'', ''expiryDt''] = Some (JStr (strftime ?e))"
        by (simp_all only: at_path_request_body)
      with s show "snd (validate srv today sent account_id side qty symbol currency phone
                            limit_price days_till_expiration) = sent @ [validation_request data]
                   \<and> at_path data [''stockOrder'', ''expiry''] = Some (JStr ''DATE'')
                   \<and> at_path data [''stockOrder'', ''expiryDt''] = Some (JStr (strftime ?e))"
        by simp
    qed
    show ?thesis unfolding Let_def using True e1 e2 e3 by simp
  next
    case False
    have "expiry_of today days_till_expiration = Inl OverflowError" using ex False by simp
    then have "validation_data today account_id side qty symbol currency limit_price
                 days_till_expiration = Inl OverflowError"
      by (simp add: validation_data_Inl)
    then have "validate srv today sent account_id side qty symbol currency phone limit_price
                   days_till_expiration = (Inl OverflowError, sent)"
      by (simp add: validate_def)
    then show ?thesis unfolding Let_def using False by simp
  qed
qed

text \<open>On Tuesday 2026-11-03 an offset of four days lands on Saturday 2026-11-07 and one of
  five days on Sunday 2026-11-08; either order expires on Monday 2026-11-09. An offset of
  one day lands on Wednesday 2026-11-04 and stays there.\<close>

theorem validate_expiry_date_witness:
  "valid_date 739923 \<and> (0::int) < 4
   \<and> weekday (739923 + 4) = 5 \<and> weekday (739923 + 5) = 6 \<and> weekday (739923 + 1) = 2
   \<and> expiry_of 739923 4 = Inr (''DATE'', JStr ''2026-11-09'')
   \<and> expiry_of 739923 5 = Inr (''DATE'', JStr ''2026-11-09'')
   \<and> expiry_of 739923 1 = Inr (''DATE'', JStr ''2026-11-04'')
   \<and> validation_data 739923 ''A1'' ''buy'' 10 ''aapl'' ''usd'' (JInt 150) 4
       = Inr (request_body ''A1'' ''BUY'' ''10'' ''DATE'' (JStr ''2026-11-09'') ''AAPL'' ''USD''
                ''USA'' (JInt 150) ''SPECIFIC'')
   \<and> snd (validate (answering []) 739923 [] ''A1'' ''buy'' 10 ''aapl'' ''usd'' ''514-555-0100''
            (JInt 150) 4)
       = [validation_request
            (request_body ''A1'' ''BUY'' ''10'' ''DATE'' (JStr ''2026-11-09'') ''AAPL'' ''USD''
               ''USA'' (JInt 150) ''SPECIFIC'')]"
proof -
  have v: "valid_date 739923" by (simp add: valid_date_def MAXORDINAL_def)
  have p: "(0::int) < 4" "(0::int) < 5" "(0::int) < 1" by simp_all
  have d: "validation_data 739923 ''A1'' ''buy'' 10 ''aapl'' ''usd'' (JInt 150) 4
       = Inr (request_body ''A1'' ''BUY'' ''10'' ''DATE'' (JStr ''2026-11-09'') ''AAPL'' ''USD''
                ''USA'' (JInt 150) ''SPECIFIC'')"
    by (simp add: eval_defs str_defs date_defs)
  from validate_expiry_date [OF v p(1), where account_id = "''A1''" and side = "''buy''"
      and qty = 10 and symbol = "''aapl''" and currency = "''usd''" and limit_price = "JInt 150"
      and srv = "answering []" and sent = "[]" and phone = "''514-555-0100''"]
    validate_expiry_date [OF v p(2), where account_id = "''A1''" and side = "''buy''"
      and qty = 10 and symbol = "''aapl''" and currency = "''usd''" and limit_price = "JInt 150"
      and srv = "answering []" and sent = "[]" and phone = "''514-555-0100''"]
    validate_expiry_date [OF v p(3), where account_id = "''A1''" and side = "''buy''"
      and qty = 10 and symbol = "''aapl''" and currency = "''usd''" and limit_price = "JInt 150"
      and srv = "answering []" and sent = "[]" and phone = "''514-555-0100''"]
    v d
  show ?thesis
    by (simp add: weekday_def MAXORDINAL_def date_defs digit_def)
qed

text \<open>Claim C1 as worded, for every positive offset, fails for an offset that leaves
  the calendar: no expiry date is computed.\<close>

theorem validate_expiry_date_overflow_counterexample:
  "valid_date 739923 \<and> (0::int) < 4000000
   \<and> validate (answering []) 739923 [] ''A1'' ''buy'' 10 ''aapl'' ''usd'' ''514-555-0100'' (JInt 150) 4000000
       = (Inl OverflowError, [])"
  by (simp add: eval_defs str_defs date_defs)

text \<open>
  Claim C5, as the code has it. When the currency in upper case is neither \<^verbatim>\<open>USD\<close> nor
  \<^verbatim>\<open>CAD\<close>, \<^verbatim>\<open>validate\<close> sends nothing and raises: UnboundLocalError where the request body
  reads the local \<^verbatim>\<open>country\<close> that no branch has bound, or OverflowError from the expiry
  computation before that. With offset 0, or a positive offset that stays in the
  calendar, it is UnboundLocalError.
\<close>

theorem validate_unsupported_currency:
  assumes "upper currency \<noteq> ''USD''" and "upper currency \<noteq> ''CAD''"
  shows "(validate srv today sent account_id side qty symbol currency phone limit_price
            days_till_expiration = (Inl UnboundLocalError, sent)
          \<or> validate srv today sent account_id side qty symbol currency phone limit_price
            days_till_expiration = (Inl OverflowError, sent))
       \<and> (days_till_expiration = 0
            \<or> (valid_date today \<and> 0 < days_till_expiration
                \<and> today + days_till_expiration \<le> MAXORDINAL) \<longrightarrow>
          validate srv today sent account_id side qty symbol currency phone limit_price
            days_till_expiration = (Inl UnboundLocalError, sent))"
proof -
  have none: "country_of (upper currency) = None"
    using assms by (simp add: country_of_None)
  have cases: "validation_data today account_id side qty symbol currency limit_price
                 days_till_expiration
               = (case expiry_of today days_till_expiration of
                    Inl e \<Rightarrow> Inl OverflowError | Inr p \<Rightarrow> Inl UnboundLocalError)"
  proof (cases "expiry_of today days_till_expiration")
    case (Inl e)
    then show ?thesis using expiry_of_error[OF Inl] by (simp add: validation_data_Inl)
  next
    case (Inr p)
    then show ?thesis using none by (simp add: validation_data_Inl)
  qed
  have ok: "days_till_expiration = 0
            \<or> (valid_date today \<and> 0 < days_till_expiration
                \<and> today + days_till_expiration \<le> MAXORDINAL)
            \<Longrightarrow> \<exists>p. expiry_of today days_till_expiration = Inr p"
    by (auto simp: expiry_of_zero expiry_of_pos)
  show ?thesis
  proof (intro conjI impI)
    show "validate srv today sent account_id side qty symbol currency phone limit_price
            days_till_expiration = (Inl UnboundLocalError, sent)
          \<or> validate srv today sent account_id side qty symbol currency phone limit_price
            days_till_expiration = (Inl OverflowError, sent)"
      using cases by (cases "expiry_of today days_till_expiration") (simp_all add: validate_def)
  next
    assume "days_till_expiration = 0
            \<or> (valid_date today \<and> 0 < days_till_expiration
                \<and> today + days_till_expiration \<le> MAXORDINAL)"
    from ok[OF this] cases
    show "validate srv today sent account_id side qty symbol currency phone limit_price
            days_till_expiration = (Inl UnboundLocalError, sent)"
      by (auto simp: validate_def)
  qed
qed

text \<open>An order in euros.\<close>

theorem validate_unsupported_currency_witness:
  "upper ''eur'' \<noteq> ''USD'' \<and> upper ''eur'' \<noteq> ''CAD''
   \<and> validate (answering []) 739923 [] ''A1'' ''buy'' 10 ''sap'' ''eur'' ''514-555-0100'' JNull 0
       = (Inl UnboundLocalError, [])"
proof -
  have h: "upper ''eur'' \<noteq> ''USD''" "upper ''eur'' \<noteq> ''CAD''"
    by (simp_all add: str_defs)
  from validate_unsupported_currency [OF h, of "answering []" 739923 "[]" "''A1''" "''buy''" 10 "''sap''" "''514-555-0100''" JNull 0] h
  show ?thesis by simp
qed

text \<open>Claim C5 as worded fails: with currency \<^verbatim>\<open>eur\<close> the call raises and builds no
  request.\<close>

theorem validate_unsupported_currency_counterexample:
  "validate (answering []) 739923 [] ''A1'' ''buy'' 10 ''sap'' ''eur'' ''514-555-0100'' JNull 0
       = (Inl UnboundLocalError, [])"
  by (simp add: eval_defs str_defs)

section \<open>The validation response\<close>

lemma at_path_stockOrder_phone:
  "at_path (JObj (AList.update ''stockOrder'' (JObj (AList.update ''phone'' v so)) od))
     [''stockOrder'', ''phone''] = Some v"
  by (simp add: update_conv')

lemma read_validation_phone:
  assumes "read_validation response phone = Inr order_data"
  shows "at_path order_data [''stockOrder'', ''phone''] = Some (JStr phone)"
proof -
  from assms obtain so so' od where
    s: "setitem so ''phone'' (JStr phone) = Inr so'" and
    o: "order_data = JObj (AList.update ''stockOrder'' so' od)"
    unfolding read_validation_def by (auto simp: bnd_eq_Inr)
  from s obtain kvs where "so' = JObj (AList.update ''phone'' (JStr phone) kvs)"
    by (auto simp: setitem_def split: json.splits)
  with o show ?thesis by (simp only: at_path_stockOrder_phone)
qed

text \<open>
  Claim C2. Whatever phone the caller gives, the body of the validation request (when one
  is sent) carries \<^verbatim>\<open>"phone": "000-000-0000"\<close>; the body is built without the phone
  argument. Whenever \<^verbatim>\<open>validate\<close> returns a payload, the \<^verbatim>\<open>phone\<close> of its \<^verbatim>\<open>stockOrder\<close> is
  the phone argument.
\<close>

theorem validate_phone:
  "(case validation_data today account_id side qty symbol currency limit_price
           days_till_expiration of
      Inl e \<Rightarrow> snd (validate srv today sent account_id side qty symbol currency phone limit_price
                      days_till_expiration) = sent
    | Inr data \<Rightarrow>
        snd (validate srv today sent account_id side qty symbol currency phone limit_price
               days_till_expiration) = sent @ [validation_request data]
        \<and> at_path data [''stockOrder'', ''phone''] = Some (JStr ''000-000-0000''))
   \<and> (\<forall>order_data.
        fst (validate srv today sent account_id side qty symbol currency phone limit_price
               days_till_expiration) = Inr order_data \<longrightarrow>
        at_path order_data [''stockOrder'', ''phone''] = Some (JStr phone))"
proof (intro conjI allI impI)
  show "case validation_data today account_id side qty symbol currency limit_price
           days_till_expiration of
      Inl e \<Rightarrow> snd (validate srv today sent account_id side qty symbol currency phone limit_price
                      days_till_expiration) = sent
    | Inr data \<Rightarrow>
        snd (validate srv today sent account_id side qty symbol currency phone limit_price
               days_till_expiration) = sent @ [validation_request data]
        \<and> at_path data [''stockOrder'', ''phone''] = Some (JStr ''000-000-0000'')"
  proof (cases "validation_data today account_id side qty symbol currency limit_price
           days_till_expiration")
    case (Inl e)
    then show ?thesis by (simp add: validate_sent)
  next
    case (Inr data)
    then have "at_path data [''stockOrder'', ''phone''] = Some (JStr ''000-000-0000'')"
      unfolding validation_data_Inr by (auto simp: at_path_request_body simp del: at_path.simps)
    with Inr show ?thesis by (simp add: validate_sent)
  qed
next
  fix order_data
  assume "fst (validate srv today sent account_id side qty symbol currency phone limit_price
               days_till_expiration) = Inr order_data"
  then obtain response where "read_validation response phone = Inr order_data"
    unfolding validate_result by (auto simp: bnd_eq_Inr)
  then show "at_path order_data [''stockOrder'', ''phone''] = Some (JStr phone)"
    by (rule read_validation_phone)
qed

text \<open>A broker that echoes the order with the placeholder phone and one warning.\<close>

theorem validate_phone_witness:
  "validate
     (answering [(validation_url,
        JObj [(''data'', JObj [(''stockOrder'',
                 JObj [(''ordId'', JNull), (''phone'', JStr ''000-000-0000''), (''ordQty'', JStr ''10'')])]),
              (''messageList'', JList [JObj [(''msgId'', JStr ''W12''), (''message'', JStr ''Market is closed.'')]])])])
     739923 [] ''A1'' ''buy'' 10 ''aapl'' ''usd'' ''514-555-0100'' JNull 0
   = (Inr (JObj [(''stockOrder'',
                 JObj [(''ordId'', JNull), (''phone'', JStr ''514-555-0100''), (''ordQty'', JStr ''10'')]),
                (''warnsNoList'', JList [JStr ''W12''])]),
      [validation_request (request_body ''A1'' ''BUY'' ''10'' ''DAY'' JNull ''AAPL'' ''USD'' ''USA'' JNull
                ''MARKET'')])
   \<and> at_path (JObj [(''stockOrder'',
                 JObj [(''ordId'', JNull), (''phone'', JStr ''514-555-0100''), (''ordQty'', JStr ''10'')]),
                (''warnsNoList'', JList [JStr ''W12''])]) [''stockOrder'', ''phone'']
       = Some (JStr ''514-555-0100'')"
  using validate_phone [where today = 739923 and account_id = "''A1''" and side = "''buy''" and qty = 10
     and symbol = "''aapl''" and currency = "''usd''" and limit_price = JNull
     and days_till_expiration = 0 and sent = "[]" and phone = "''514-555-0100''" and srv =
     "answering [(validation_url,
        JObj [(''data'', JObj [(''stockOrder'',
                 JObj [(''ordId'', JNull), (''phone'', JStr ''000-000-0000''), (''ordQty'', JStr ''10'')])]),
              (''messageList'', JList [JObj [(''msgId'', JStr ''W12''), (''message'', JStr ''Market is closed.'')]])])]"]
  by (simp add: eval_defs str_defs json_defs read_validation_def representative_text_def
        validation_url_def)

lemma well_formed_messageD:
  assumes "well_formed_message m"
  obtains s i where "getitem m ''message'' = Inr (JStr s)" "getitem m ''msgId'' = Inr i"
    "mentions_representative m = substring representative_text s" "msg_id m = i"
proof -
  from assms obtain s i where a: "at_path m [''message''] = Some (JStr s)" "at_path m [''msgId''] = Some i"
    unfolding well_formed_message_def by (auto split: option.splits json.splits)
  then have "getitem m ''message'' = Inr (JStr s)" "getitem m ''msgId'' = Inr i"
    by (simp_all only: at_path_single)
  moreover have "mentions_representative m = substring representative_text s" "msg_id m = i"
    using a by (simp_all only: mentions_representative_def msg_id_def option.case json.case)
  ultimately show ?thesis by (rule that)
qed

lemma mentions_representativeD:
  assumes "mentions_representative m"
  obtains s where "getitem m ''message'' = Inr (JStr s)" "substring representative_text s"
proof -
  from assms obtain s where a: "at_path m [''message''] = Some (JStr s)"
    and b: "substring representative_text s"
    unfolding mentions_representative_def by (auto split: option.splits json.splits)
  from a have "getitem m ''message'' = Inr (JStr s)" by (simp only: at_path_single)
  then show ?thesis using b by (rule that)
qed

lemma scan_messages_clean:
  assumes "\<forall>m\<in>set msgs. well_formed_message m \<and> \<not> mentions_representative m"
  shows "scan_messages msgs acc = Inr (acc @ map msg_id msgs)"
  using assms
proof (induction msgs arbitrary: acc)
  case Nil
  then show ?case by simp
next
  case (Cons m msgs)
  then have wf: "well_formed_message m" and no: "\<not> mentions_representative m" by simp_all
  from wf obtain s i where g: "getitem m ''message'' = Inr (JStr s)" "getitem m ''msgId'' = Inr i"
    "mentions_representative m = substring representative_text s" "msg_id m = i"
    by (rule well_formed_messageD)
  from Cons.prems have "\<forall>m\<in>set msgs. well_formed_message m \<and> \<not> mentions_representative m" by simp
  from Cons.IH[OF this, of "acc @ [i]"] g no
  show ?case by (simp add: str_in_def)
qed

lemma scan_messages_rejected:
  assumes "\<forall>m\<in>set msgs. mentions_representative m \<or> well_formed_message m"
    and "\<exists>m\<in>set msgs. mentions_representative m"
  shows "scan_messages msgs acc = Inl order_rejected"
  using assms
proof (induction msgs arbitrary: acc)
  case Nil
  then show ?case by simp
next
  case (Cons m msgs)
  show ?case
  proof (cases "mentions_representative m")
    case True
    then obtain s where "getitem m ''message'' = Inr (JStr s)" "substring representative_text s"
      by (rule mentions_representativeD)
    then show ?thesis by (simp add: str_in_def)
  next
    case False
    with Cons.prems have wf: "well_formed_message m" by simp
    from wf obtain s i where g: "getitem m ''message'' = Inr (JStr s)" "getitem m ''msgId'' = Inr i"
      "mentions_representative m = substring representative_text s" "msg_id m = i"
      by (rule well_formed_messageD)
    from False Cons.prems have "\<forall>m\<in>set msgs. mentions_representative m \<or> well_formed_message m"
      "\<exists>m\<in>set msgs. mentions_representative m"
      by auto
    from Cons.IH[OF this, of "acc @ [i]"] g False
    show ?thesis by (simp add: str_in_def)
  qed
qed

lemma read_validation_messages:
  assumes so: "at_path response [''data'', ''stockOrder''] = Some (JObj stock_order)"
    and ml: "at_path response [''messageList''] = Some (JList messages)"
  shows "read_validation response phone =
     bnd (scan_messages messages []) (\<lambda>warning_list.
       Inr (JObj [(''stockOrder'', JObj (AList.update ''phone'' (JStr phone) stock_order)),
                  (''warnsNoList'', JList warning_list)]))"
proof -
  from so obtain d where d: "getitem response ''data'' = Inr d"
    "getitem d ''stockOrder'' = Inr (JObj stock_order)"
    unfolding at_path_two by blast
  have m: "getitem response ''messageList'' = Inr (JList messages)"
    using ml by (simp only: at_path_single)
  have i: "str_in ''messageList'' response = Inr True" using ml by (rule str_in_key)
  show ?thesis
    unfolding read_validation_def
    by (cases "scan_messages messages []") (simp_all add: d m i iterate_def setitem_def)
qed

text \<open>
  Claim C4. Let the broker answer the validation request with a response that carries
  \<^verbatim>\<open>data.stockOrder\<close> and a \<^verbatim>\<open>messageList\<close> in which every message that does not mention a
  representative is a well-formed warning. If some message
  mentions processing by a representative, \<^verbatim>\<open>validate\<close> raises the exception of line 262
  (the spec's OrderRejectedError), whatever the other messages are. If none does,
  \<^verbatim>\<open>validate\<close> returns, and \<^verbatim>\<open>warnsNoList\<close> of the returned payload is the list of the
  \<^verbatim>\<open>msgId\<close> of every message, in order.
\<close>

theorem validate_messages:
  assumes vd: "validation_data today account_id side qty symbol currency limit_price
                 days_till_expiration = Inr data"
    and resp: "srv sent (validation_request data) = Inr response"
    and so: "at_path response [''data'', ''stockOrder''] = Some (JObj stock_order)"
    and ml: "at_path response [''messageList''] = Some (JList messages)"
    and wf: "\<forall>m\<in>set messages. mentions_representative m \<or> well_formed_message m"
  shows "((\<exists>m\<in>set messages. mentions_representative m) \<longrightarrow>
            fst (validate srv today sent account_id side qty symbol currency phone limit_price
                   days_till_expiration) = Inl order_rejected)
       \<and> ((\<forall>m\<in>set messages. \<not> mentions_representative m) \<longrightarrow>
            fst (validate srv today sent account_id side qty symbol currency phone limit_price
                   days_till_expiration)
            = Inr (JObj [(''stockOrder'', JObj (AList.update ''phone'' (JStr phone) stock_order)),
                         (''warnsNoList'', JList (map msg_id messages))]))"
proof -
  have v: "fst (validate srv today sent account_id side qty symbol currency phone limit_price
                   days_till_expiration) = read_validation response phone"
    by (simp add: validate_result vd resp)
  note r = read_validation_messages[OF so ml, of phone]
  show ?thesis
  proof (intro conjI impI)
    assume "\<exists>m\<in>set messages. mentions_representative m"
    from scan_messages_rejected[OF wf this, of "[]"]
    show "fst (validate srv today sent account_id side qty symbol currency phone limit_price
                   days_till_expiration) = Inl order_rejected"
      by (simp add: v r)
  next
    assume "\<forall>m\<in>set messages. \<not> mentions_representative m"
    with wf have "\<forall>m\<in>set messages. well_formed_message m \<and> \<not> mentions_representative m" by blast
    from scan_messages_clean[OF this, of "[]"]
    show "fst (validate srv today sent account_id side qty symbol currency phone limit_price
                   days_till_expiration)
            = Inr (JObj [(''stockOrder'', JObj (AList.update ''phone'' (JStr phone) stock_order)),
                         (''warnsNoList'', JList (map msg_id messages))])"
      by (simp add: v r)
  qed
qed

lemmas msg_defs = well_formed_message_def mentions_representative_def msg_id_def representative_text_def

text \<open>Two answers of the broker: three messages of which the second mentions a
  representative, and the same without it.\<close>

theorem validate_messages_witness:
  "fst (validate
     (answering [(validation_url,
        JObj [(''data'', JObj [(''stockOrder'', JObj [(''ordId'', JNull), (''ordQty'', JStr ''10'')])]),
              (''messageList'', JList
                 [JObj [(''msgId'', JStr ''W12''), (''message'', JStr ''Market is closed.'')],
                  JObj [(''msgId'', JStr ''E07''),
                        (''message'', JStr ''Please note your order will be processed by one of our representatives.'')],
                  JObj [(''msgId'', JStr ''W40''), (''message'', JStr ''Price is far from market.'')]])])])
     739923 [] ''A1'' ''buy'' 10 ''aapl'' ''usd'' ''514-555-0100'' JNull 0)
   = Inl order_rejected
   \<and> fst (validate
     (answering [(validation_url,
        JObj [(''data'', JObj [(''stockOrder'', JObj [(''ordId'', JNull), (''ordQty'', JStr ''10'')])]),
              (''messageList'', JList
                 [JObj [(''msgId'', JStr ''W12''), (''message'', JStr ''Market is closed.'')],
                  JObj [(''msgId'', JStr ''W40''), (''message'', JStr ''Price is far from market.'')]])])])
     739923 [] ''A1'' ''buy'' 10 ''aapl'' ''usd'' ''514-555-0100'' JNull 0)
   = Inr (JObj [(''stockOrder'', JObj [(''ordId'', JNull), (''ordQty'', JStr ''10''),
                                      (''phone'', JStr ''514-555-0100'')]),
                (''warnsNoList'', JList [JStr ''W12'', JStr ''W40''])])"
proof -
  let ?so = "[(''ordId'', JNull), (''ordQty'', JStr ''10'')]"
  let ?w1 = "JObj [(''msgId'', JStr ''W12''), (''message'', JStr ''Market is closed.'')]"
  let ?w2 = "JObj [(''msgId'', JStr ''W40''), (''message'', JStr ''Price is far from market.'')]"
  let ?e = "JObj [(''msgId'', JStr ''E07''),
                  (''message'', JStr ''Please note your order will be processed by one of our representatives.'')]"
  let ?r1 = "JObj [(''data'', JObj [(''stockOrder'', JObj ?so)]), (''messageList'', JList [?w1, ?e, ?w2])]"
  let ?r2 = "JObj [(''data'', JObj [(''stockOrder'', JObj ?so)]), (''messageList'', JList [?w1, ?w2])]"
  let ?data = "request_body ''A1'' ''BUY'' ''10'' ''DAY'' JNull ''AAPL'' ''USD'' ''USA'' JNull ''MARKET''"
  have vd: "validation_data 739923 ''A1'' ''buy'' 10 ''aapl'' ''usd'' JNull 0 = Inr ?data"
    by (simp add: validation_data_def expiry_of_def country_of_def price_type_def str_int_def
          str_nat.simps digit_def str_defs)
  have wf1: "\<forall>m\<in>set [?w1, ?e, ?w2]. mentions_representative m \<or> well_formed_message m"
    and wf2: "\<forall>m\<in>set [?w1, ?w2]. mentions_representative m \<or> well_formed_message m"
    by (simp_all add: msg_defs)
  have rep: "\<exists>m\<in>set [?w1, ?e, ?w2]. mentions_representative m"
    by (simp add: msg_defs)
  have norep: "\<forall>m\<in>set [?w1, ?w2]. \<not> mentions_representative m"
    by (simp add: msg_defs)
  have a1: "answering [(validation_url, ?r1)] [] (validation_request ?data) = Inr ?r1"
    and a2: "answering [(validation_url, ?r2)] [] (validation_request ?data) = Inr ?r2"
    by (simp_all add: answering_def validation_request_def)
  have p1: "at_path ?r1 [''data'', ''stockOrder''] = Some (JObj ?so)"
    and m1: "at_path ?r1 [''messageList''] = Some (JList [?w1, ?e, ?w2])"
    and p2: "at_path ?r2 [''data'', ''stockOrder''] = Some (JObj ?so)"
    and m2: "at_path ?r2 [''messageList''] = Some (JList [?w1, ?w2])"
    by simp_all
  from validate_messages [where srv = "answering [(validation_url, ?r1)]" and sent = "[]"
      and phone = "''514-555-0100''", OF vd a1 p1 m1 wf1] rep
  have c1: "fst (validate (answering [(validation_url, ?r1)]) 739923 [] ''A1'' ''buy'' 10 ''aapl''
                   ''usd'' ''514-555-0100'' JNull 0) = Inl order_rejected"
    by blast
  from validate_messages [where srv = "answering [(validation_url, ?r2)]" and sent = "[]"
      and phone = "''514-555-0100''", OF vd a2 p2 m2 wf2] norep
  have c2: "fst (validate (answering [(validation_url, ?r2)]) 739923 [] ''A1'' ''buy'' 10 ''aapl''
                   ''usd'' ''514-555-0100'' JNull 0)
            = Inr (JObj [(''stockOrder'', JObj (AList.update ''phone'' (JStr ''514-555-0100'') ?so)),
                         (''warnsNoList'', JList (map msg_id [?w1, ?w2]))])"
    by blast
  from c1 c2 show ?thesis by (simp add: msg_id_def)
qed

section \<open>Placing an order\<close>

lemma submit_sent: "snd (submit srv s order_data) = s @ [order_request order_data]"
  by (simp add: submit_def send_def order_request_def)

lemma submit_result:
  assumes "srv s (order_request order_data) = Inr j"
    and "at_path j [''data'', ''stockOrder'', ''ordId''] = Some ord_id"
  shows "fst (submit srv s order_data) = Inr (JObj [(''order_id'', ord_id)])"
proof -
  from assms(2) obtain w w' where "getitem j ''data'' = Inr w" "getitem w ''stockOrder'' = Inr w'"
    "getitem w' ''ordId'' = Inr ord_id"
    unfolding at_path_three by blast
  with assms(1) show ?thesis
    by (simp add: submit_def send_def order_request_def[symmetric])
qed

lemma urls_differ: "validation_url \<noteq> order_url"
  by (simp add: validation_url_def order_url_def)

lemma submits_validatedI:
  assumes v: "v = validate srv today sent account_id side qty symbol currency phone limit_price days"
    and p: "p = (case v of (Inl e, sent') \<Rightarrow> (Inl e, sent')
                        | (Inr order_data, sent') \<Rightarrow> submit srv sent' order_data)"
  shows "submits_validated srv sent v p"
proof (cases "fst v")
  case (Inl e)
  then have pv: "p = v" using p by (cases v) simp
  from validate_sent_cases[of srv today sent account_id side qty symbol currency phone limit_price days]
  have "\<forall>r\<in>set (drop (length sent) (snd v)). url r \<noteq> order_url"
    unfolding v[symmetric] by (auto simp: validation_request_def urls_differ)
  with Inl pv show ?thesis by (simp add: submits_validated_def)
next
  case (Inr order_data)
  then have pv: "p = submit srv (snd v) order_data" using p by (cases v) simp
  from validate_sent_cases[of srv today sent account_id side qty symbol currency phone limit_price days] Inr
  have "\<exists>data. snd v = sent @ [validation_request data]"
    unfolding v[symmetric] by auto
  with Inr pv show ?thesis
    by (auto simp: submits_validated_def submit_sent submit_result)
qed

text \<open>
  Claim C3. \<^verbatim>\<open>place_market_order\<close> and \<^verbatim>\<open>place_limit_order\<close> call \<^verbatim>\<open>validate\<close> with their own
  arguments (no limit price and offset 0 for a market order), post the payload it returns,
  unchanged, to the order endpoint, and return the \<^verbatim>\<open>ordId\<close> of the answer; when
  \<^verbatim>\<open>validate\<close> raises they raise the same and post nothing to the order endpoint.
\<close>

theorem place_orders_submit_validated:
  "submits_validated srv sent
     (validate srv today sent account_id side qty symbol currency phone JNull 0)
     (place_market_order srv today sent symbol account_id currency side qty phone)
   \<and> submits_validated srv sent
     (validate srv today sent account_id side qty symbol currency phone limit_price
        days_till_expiration)
     (place_limit_order srv today sent symbol account_id currency side qty phone limit_price
        days_till_expiration)"
  by (intro conjI submits_validatedI[OF refl])
     (simp_all add: place_market_order_def place_limit_order_def split: prod.splits sum.splits)

lemmas order_defs = place_market_order_def place_limit_order_def submit_def order_request_def order_url_def

text \<open>A broker that accepts the order and assigns it \<^verbatim>\<open>ORD-1\<close>; and a limit order in
  euros, which fails in validation and posts nothing.\<close>

theorem place_orders_submit_validated_witness:
  "validate
     (answering
        [(validation_url,
          JObj [(''data'', JObj [(''stockOrder'', JObj [(''ordId'', JNull), (''ordQty'', JStr ''10'')])])]),
         (order_url,
          JObj [(''data'', JObj [(''stockOrder'', JObj [(''ordId'', JStr ''ORD-1'')])])])])
     739923 [] ''A1'' ''buy'' 10 ''aapl'' ''usd'' ''514-555-0100'' JNull 0
   = (Inr (JObj [(''stockOrder'', JObj [(''ordId'', JNull), (''ordQty'', JStr ''10''),
                                       (''phone'', JStr ''514-555-0100'')])]),
      [validation_request
         (request_body ''A1'' ''BUY'' ''10'' ''DAY'' JNull ''AAPL'' ''USD'' ''USA'' JNull ''MARKET'')])
   \<and> place_market_order
     (answering
        [(validation_url,
          JObj [(''data'', JObj [(''stockOrder'', JObj [(''ordId'', JNull), (''ordQty'', JStr ''10'')])])]),
         (order_url,
          JObj [(''data'', JObj [(''stockOrder'', JObj [(''ordId'', JStr ''ORD-1'')])])])])
     739923 [] ''aapl'' ''A1'' ''usd'' ''buy'' 10 ''514-555-0100''
   = (Inr (JObj [(''order_id'', JStr ''ORD-1'')]),
      [validation_request
         (request_body ''A1'' ''BUY'' ''10'' ''DAY'' JNull ''AAPL'' ''USD'' ''USA'' JNull ''MARKET''),
       order_request
         (JObj [(''stockOrder'', JObj [(''ordId'', JNull), (''ordQty'', JStr ''10''),
                                      (''phone'', JStr ''514-555-0100'')])])])
   \<and> place_limit_order
     (answering
        [(validation_url,
          JObj [(''data'', JObj [(''stockOrder'', JObj [(''ordId'', JNull), (''ordQty'', JStr ''10'')])])]),
         (order_url,
          JObj [(''data'', JObj [(''stockOrder'', JObj [(''ordId'', JStr ''ORD-1'')])])])])
     739923 [] ''aapl'' ''A1'' ''eur'' ''buy'' 10 ''514-555-0100'' (JInt 150) 0
   = (Inl UnboundLocalError, [])"
  using place_orders_submit_validated [where today = 739923 and sent = "[]" and account_id = "''A1''" and side = "''buy''"
      and qty = 10 and symbol = "''aapl''" and currency = "''usd''" and phone = "''514-555-0100''"
      and limit_price = "JInt 150" and days_till_expiration = 0
      and srv = "answering
        [(validation_url,
          JObj [(''data'', JObj [(''stockOrder'', JObj [(''ordId'', JNull), (''ordQty'', JStr ''10'')])])]),
         (order_url,
          JObj [(''data'', JObj [(''stockOrder'', JObj [(''ordId'', JStr ''ORD-1'')])])])]"]
  by (simp add: eval_defs str_defs json_defs order_defs read_validation_def validation_url_def)

section \<open>Looking an order up\<close>

lemma has_ord_idD:
  assumes "at_path item [''ordId''] \<noteq> None"
  obtains v where "getitem item ''ordId'' = Inr v" "is_order order_id item = (v = JStr order_id)"
proof -
  from assms obtain v where a: "at_path item [''ordId''] = Some v" by blast
  then have "getitem item ''ordId'' = Inr v" by (simp only: at_path_single)
  moreover have "is_order order_id item = (v = JStr order_id)"
    unfolding is_order_def a by simp
  ultimately show ?thesis by (rule that)
qed

lemma find_order_wf:
  assumes "\<forall>item\<in>set orders. at_path item [''ordId''] \<noteq> None"
  shows "find_order order_id orders =
           Inr (case List.find (is_order order_id) orders of None \<Rightarrow> JList [] | Some item \<Rightarrow> item)"
  using assms
proof (induction orders)
  case Nil
  then show ?case by simp
next
  case (Cons item orders)
  then have "at_path item [''ordId''] \<noteq> None" by simp
  then obtain v where g: "getitem item ''ordId'' = Inr v"
    "is_order order_id item = (v = JStr order_id)"
    by (rule has_ord_idD)
  from Cons have "find_order order_id orders =
           Inr (case List.find (is_order order_id) orders of None \<Rightarrow> JList [] | Some item \<Rightarrow> item)"
    by simp
  with g show ?case by simp
qed

lemma find_order_status_wf:
  assumes "\<forall>item\<in>set orders. at_path item [''ordId''] \<noteq> None"
  shows "find_order_status order_id orders =
           (case List.find (is_order order_id) orders of
              None \<Rightarrow> Inl order_not_found
            | Some item \<Rightarrow> getitem item ''orderOpen'')"
  using assms
proof (induction orders)
  case Nil
  then show ?case by simp
next
  case (Cons item orders)
  then have "at_path item [''ordId''] \<noteq> None" by simp
  then obtain v where g: "getitem item ''ordId'' = Inr v"
    "is_order order_id item = (v = JStr order_id)"
    by (rule has_ord_idD)
  from Cons have "find_order_status order_id orders =
           (case List.find (is_order order_id) orders of
              None \<Rightarrow> Inl order_not_found
            | Some item \<Rightarrow> getitem item ''orderOpen'')"
    by simp
  with g show ?case by simp
qed

lemma is_order_len:
  assumes "is_order order_id item"
  shows "\<exists>n. len item = Inr (Suc n)"
proof -
  from assms obtain kvs where "item = JObj kvs" "map_of kvs ''ordId'' = Some (JStr order_id)"
    unfolding is_order_def by (cases item) (auto split: option.splits)
  then show ?thesis by (cases kvs) (auto simp: len_def)
qed

lemma order_fields_wf:
  assumes "well_formed_order item"
  shows "order_fields item =
     Inr (JObj [(''order_id'', value_at item [''ordId'']), (''operation'', value_at item [''operation'']),
                (''order_quantity'', value_at item [''ordQty'']),
                (''filled_quantity'', value_at item [''execQty'']),
                (''fill_price'', value_at item [''avgExecPrice'']),
                (''order_open'', value_at item [''orderOpen''])])"
proof -
  from assms have "getitem item ''ordId'' = Inr (value_at item [''ordId''])"
    "getitem item ''operation'' = Inr (value_at item [''operation''])"
    "getitem item ''ordQty'' = Inr (value_at item [''ordQty''])"
    "getitem item ''execQty'' = Inr (value_at item [''execQty''])"
    "getitem item ''avgExecPrice'' = Inr (value_at item [''avgExecPrice''])"
    "getitem item ''orderOpen'' = Inr (value_at item [''orderOpen''])"
    unfolding well_formed_order_def by (simp_all add: getitem_value_at del: at_path.simps)
  then show ?thesis by (simp add: order_fields_def)
qed

lemma fetch_orders_ok:
  assumes "srv sent (orders_request account_id) = Inr response"
    and "at_path response [''data'', ''orderList''] = Some (JList orders)"
  shows "fetch_orders srv sent account_id = (Inr (JList orders), sent @ [orders_request account_id])"
proof -
  from assms(2) obtain d where "getitem response ''data'' = Inr d"
    "getitem d ''orderList'' = Inr (JList orders)"
    unfolding at_path_two by blast
  with assms(1) show ?thesis
    by (simp add: fetch_orders_def send_def orders_request_def[symmetric])
qed

text \<open>
  Claim C8. Let the broker answer with an order list (under \<^verbatim>\<open>data.orderList\<close>) whose
  entries have an \<^verbatim>\<open>ordId\<close>. When the list is empty or no entry has the requested id,
  \<^verbatim>\<open>get_order\<close> and \<^verbatim>\<open>get_order_status\<close> raise the exception of lines 411 and 446 (the
  spec's OrderNotFoundError). When some entry has it, \<^verbatim>\<open>get_order\<close> returns the six
  projected fields of the first such entry and \<^verbatim>\<open>get_order_status\<close> returns its
  \<^verbatim>\<open>orderOpen\<close> alone.
\<close>

theorem get_order_lookup:
  assumes resp: "srv sent (orders_request account_id) = Inr response"
    and list: "at_path response [''data'', ''orderList''] = Some (JList orders)"
    and ids: "\<forall>item\<in>set orders. at_path item [''ordId''] \<noteq> None"
  shows "((\<forall>item\<in>set orders. \<not> is_order order_id item) \<longrightarrow>
            fst (get_order srv sent account_id order_id) = Inl order_not_found
          \<and> fst (get_order_status srv sent account_id order_id) = Inl order_not_found)
       \<and> (\<forall>item. List.find (is_order order_id) orders = Some item \<and> well_formed_order item \<longrightarrow>
            fst (get_order srv sent account_id order_id)
            = Inr (JObj [(''order_id'', value_at item [''ordId'']),
                         (''operation'', value_at item [''operation'']),
                         (''order_quantity'', value_at item [''ordQty'']),
                         (''filled_quantity'', value_at item [''execQty'']),
                         (''fill_price'', value_at item [''avgExecPrice'']),
                         (''order_open'', value_at item [''orderOpen''])])
          \<and> fst (get_order_status srv sent account_id order_id) = Inr (value_at item [''orderOpen'']))"
proof -
  note f = fetch_orders_ok[where srv = srv and sent = sent, OF resp list]
  have go: "fst (get_order srv sent account_id order_id) =
     bnd (find_order order_id orders) (\<lambda>order_info.
     bnd (len order_info) (\<lambda>n. if n = 0 then Inl order_not_found else order_fields order_info))"
    by (simp add: get_order_def f iterate_def)
  have gs: "fst (get_order_status srv sent account_id order_id) = find_order_status order_id orders"
    by (simp add: get_order_status_def f iterate_def)
  show ?thesis
  proof (intro conjI allI impI)
    assume "\<forall>item\<in>set orders. \<not> is_order order_id item"
    then have n: "List.find (is_order order_id) orders = None"
      by (simp add: find_None_iff)
    show "fst (get_order srv sent account_id order_id) = Inl order_not_found"
      by (simp add: go find_order_wf[OF ids] n len_def)
    show "fst (get_order_status srv sent account_id order_id) = Inl order_not_found"
      by (simp add: gs find_order_status_wf[OF ids] n)
  next
    fix item
    assume a: "List.find (is_order order_id) orders = Some item \<and> well_formed_order item"
    then have io: "is_order order_id item" by (auto simp: find_Some_iff)
    from is_order_len[OF io] obtain n where l: "len item = Inr (Suc n)" by blast
    from a have w: "well_formed_order item" by simp
    show "fst (get_order srv sent account_id order_id)
            = Inr (JObj [(''order_id'', value_at item [''ordId'']),
                         (''operation'', value_at item [''operation'']),
                         (''order_quantity'', value_at item [''ordQty'']),
                         (''filled_quantity'', value_at item [''execQty'']),
                         (''fill_price'', value_at item [''avgExecPrice'']),
                         (''order_open'', value_at item [''orderOpen''])])"
      using a by (simp add: go find_order_wf[OF ids] l order_fields_wf[OF w])
    have "at_path item [''orderOpen''] \<noteq> None"
      using w unfolding well_formed_order_def by (simp del: at_path.simps)
    then show "fst (get_order_status srv sent account_id order_id) = Inr (value_at item [''orderOpen''])"
      using a by (simp add: gs find_order_status_wf[OF ids] getitem_value_at del: at_path.simps)
  qed
qed

text \<open>Three orders of which the second and the third have the requested id; and an
  empty order list.\<close>

theorem get_order_lookup_witness:
  "fst (get_order
     (answering [(orders_url ''A1'',
        JObj [(''data'', JObj [(''orderList'', JList
          [JObj [(''ordId'', JStr ''K1''), (''operation'', JStr ''BUY''), (''ordQty'', JInt 10),
                 (''execQty'', JInt 10), (''avgExecPrice'', JFloat 101.5), (''orderOpen'', JBool False)],
           JObj [(''ordId'', JStr ''K2''), (''operation'', JStr ''SELL''), (''ordQty'', JInt 5),
                 (''execQty'', JInt 0), (''avgExecPrice'', JNull), (''orderOpen'', JBool True)],
           JObj [(''ordId'', JStr ''K2''), (''operation'', JStr ''BUY''), (''ordQty'', JInt 7),
                 (''execQty'', JInt 7), (''avgExecPrice'', JInt 3), (''orderOpen'', JBool False)]])])])])
     [] ''A1'' ''K2'')
   = Inr (JObj [(''order_id'', JStr ''K2''), (''operation'', JStr ''SELL''),
                (''order_quantity'', JInt 5), (''filled_quantity'', JInt 0),
                (''fill_price'', JNull), (''order_open'', JBool True)])
   \<and> fst (get_order_status
     (answering [(orders_url ''A1'',
        JObj [(''data'', JObj [(''orderList'', JList
          [JObj [(''ordId'', JStr ''K1''), (''operation'', JStr ''BUY''), (''ordQty'', JInt 10),
                 (''execQty'', JInt 10), (''avgExecPrice'', JFloat 101.5), (''orderOpen'', JBool False)],
           JObj [(''ordId'', JStr ''K2''), (''operation'', JStr ''SELL''), (''ordQty'', JInt 5),
                 (''execQty'', JInt 0), (''avgExecPrice'', JNull), (''orderOpen'', JBool True)],
           JObj [(''ordId'', JStr ''K2''), (''operation'', JStr ''BUY''), (''ordQty'', JInt 7),
                 (''execQty'', JInt 7), (''avgExecPrice'', JInt 3), (''orderOpen'', JBool False)]])])])])
     [] ''A1'' ''K2'')
   = Inr (JBool True)
   \<and> fst (get_order
     (answering [(orders_url ''A1'', JObj [(''data'', JObj [(''orderList'', JList [])])])])
     [] ''A1'' ''K2'')
   = Inl order_not_found
   \<and> fst (get_order_status
     (answering [(orders_url ''A1'', JObj [(''data'', JObj [(''orderList'', JList [])])])])
     [] ''A1'' ''K2'')
   = Inl order_not_found"
proof -
  let ?k1 = "JObj [(''ordId'', JStr ''K1''), (''operation'', JStr ''BUY''), (''ordQty'', JInt 10),
                 (''execQty'', JInt 10), (''avgExecPrice'', JFloat 101.5), (''orderOpen'', JBool False)]"
  let ?k2 = "JObj [(''ordId'', JStr ''K2''), (''operation'', JStr ''SELL''), (''ordQty'', JInt 5),
                 (''execQty'', JInt 0), (''avgExecPrice'', JNull), (''orderOpen'', JBool True)]"
  let ?k3 = "JObj [(''ordId'', JStr ''K2''), (''operation'', JStr ''BUY''), (''ordQty'', JInt 7),
                 (''execQty'', JInt 7), (''avgExecPrice'', JInt 3), (''orderOpen'', JBool False)]"
  let ?orders = "[?k1, ?k2, ?k3]"
  let ?r = "JObj [(''data'', JObj [(''orderList'', JList ?orders)])]"
  let ?e = "JObj [(''data'', JObj [(''orderList'', JList [])])]"
  have resp: "answering [(orders_url ''A1'', ?r)] [] (orders_request ''A1'') = Inr ?r"
    and resp0: "answering [(orders_url ''A1'', ?e)] [] (orders_request ''A1'') = Inr ?e"
    by (simp_all add: answering_def orders_request_def)
  have list: "at_path ?r [''data'', ''orderList''] = Some (JList ?orders)"
    and list0: "at_path ?e [''data'', ''orderList''] = Some (JList [])"
    by simp_all
  have ids: "\<forall>item\<in>set ?orders. at_path item [''ordId''] \<noteq> None"
    and ids0: "\<forall>item\<in>set []. at_path item [''ordId''] \<noteq> None"
    by simp_all
  have found: "List.find (is_order ''K2'') ?orders = Some ?k2 \<and> well_formed_order ?k2"
    by (simp add: is_order_def well_formed_order_def)
  have none: "\<forall>item\<in>set []. \<not> is_order ''K2'' item"
    by simp
  from get_order_lookup [where srv = "answering [(orders_url ''A1'', ?r)]" and sent = "[]"
      and order_id = "''K2''", OF resp list ids] found
  have a: "fst (get_order (answering [(orders_url ''A1'', ?r)]) [] ''A1'' ''K2'')
            = Inr (JObj [(''order_id'', value_at ?k2 [''ordId'']),
                         (''operation'', value_at ?k2 [''operation'']),
                         (''order_quantity'', value_at ?k2 [''ordQty'']),
                         (''filled_quantity'', value_at ?k2 [''execQty'']),
                         (''fill_price'', value_at ?k2 [''avgExecPrice'']),
                         (''order_open'', value_at ?k2 [''orderOpen''])])
          \<and> fst (get_order_status (answering [(orders_url ''A1'', ?r)]) [] ''A1'' ''K2'')
            = Inr (value_at ?k2 [''orderOpen''])"
    by blast
  from get_order_lookup [where srv = "answering [(orders_url ''A1'', ?e)]" and sent = "[]"
      and order_id = "''K2''", OF resp0 list0 ids0] none
  have b: "fst (get_order (answering [(orders_url ''A1'', ?e)]) [] ''A1'' ''K2'') = Inl order_not_found
          \<and> fst (get_order_status (answering [(orders_url ''A1'', ?e)]) [] ''A1'' ''K2'')
              = Inl order_not_found"
    by blast
  from a b show ?thesis by (simp add: value_at_def)
qed

section \<open>Positions\<close>

lemma symbol_of_key_ok:
  "2 \<le> length (split_on (CHR '';'') key) \<Longrightarrow>
     symbol_of_key (JStr key) = Inr (split_on (CHR '';'') key ! 1)"
  by (cases "split_on (CHR '';'') key"; cases "tl (split_on (CHR '';'') key)")
     (auto simp: symbol_of_key_def)

lemma position_entry_wf:
  assumes "well_formed_position item"
  shows "position_entry item = Inr (symbol_of item, summary_of item)"
proof -
  from assms obtain key where k: "at_path item [''finInstrument'', ''quoteIdKey''] = Some (JStr key)"
    and n: "2 \<le> length (split_on (CHR '';'') key)"
    unfolding well_formed_position_def by (auto split: option.splits json.splits)
  from assms obtain q a b c d where
    v: "at_path item [''quantity''] = Some q"
       "at_path item [''positionEval'', ''avgCostPrice''] = Some a"
       "at_path item [''positionEval'', ''pnlAmt''] = Some b"
       "at_path item [''positionEval'', ''pnlPerc''] = Some c"
       "at_path item [''positionEval'', ''marketValueAmt''] = Some d"
    unfolding well_formed_position_def by (auto simp del: at_path.simps)
  from k obtain fin where f: "getitem item ''finInstrument'' = Inr fin"
    "getitem fin ''quoteIdKey'' = Inr (JStr key)"
    unfolding at_path_two by blast
  from v(2) obtain ev where e: "getitem item ''positionEval'' = Inr ev"
    "getitem ev ''avgCostPrice'' = Inr a"
    unfolding at_path_two by blast
  from v(3,4,5) e(1) have e2: "getitem ev ''pnlAmt'' = Inr b" "getitem ev ''pnlPerc'' = Inr c"
    "getitem ev ''marketValueAmt'' = Inr d"
    unfolding at_path_two by auto
  from v(1) have q: "getitem item ''quantity'' = Inr q" by (simp only: at_path_single)
  have s: "symbol_of item = split_on (CHR '';'') key ! 1"
    by (simp only: symbol_of_def k option.case json.case)
  have su: "summary_of item = JObj [(''quantity'', q), (''cost'', a), (''change'', b),
                        (''change_per'', c), (''market_val'', d)]"
    by (simp only: summary_of_def value_at_def v option.case)
  show ?thesis
    unfolding position_entry_def
    by (simp add: f e e2 q symbol_of_key_ok[OF n] s su)
qed

lemma fill_positions_wf:
  assumes "\<forall>item\<in>set items. well_formed_position item"
  shows "fill_positions items return_dict =
           Inr (fold (\<lambda>item. AList.update (symbol_of item) (summary_of item)) items return_dict)"
  using assms
  by (induction items arbitrary: return_dict) (simp_all add: position_entry_wf)

lemma map_of_fold_update:
  "map_of (fold (\<lambda>x. AList.update (f x) (g x)) xs acc) k =
     (if \<exists>x\<in>set xs. f x = k then Some (g (last (filter (\<lambda>x. f x = k) xs))) else map_of acc k)"
proof (induction xs arbitrary: acc)
  case Nil
  then show ?case by simp
next
  case (Cons x xs)
  show ?case
    by (simp add: Cons.IH update_conv' filter_empty_conv)
qed

lemma keys_fold_update:
  "fst ` set (fold (\<lambda>x. AList.update (f x) (g x)) xs acc) = fst ` set acc \<union> f ` set xs"
  by (induction xs arbitrary: acc) (auto simp: dom_update)

lemma distinct_fold_update:
  "distinct (map fst acc) \<Longrightarrow> distinct (map fst (fold (\<lambda>x. AList.update (f x) (g x)) xs acc))"
  by (induction xs arbitrary: acc) (simp_all add: distinct_update)

lemma get_positions_unfold:
  assumes "srv sent (positions_request account_id) = Inr j"
    and "position_list j = Inr (JList positions)"
    and "\<forall>item\<in>set positions. well_formed_position item"
  shows "fst (get_positions srv sent account_id) =
           (if positions = [] then Inl no_positions
            else Inr (JObj (fold (\<lambda>item. AList.update (symbol_of item) (summary_of item))
                              positions [])))"
  using assms(1,2)
  by (simp add: get_positions_def send_def positions_request_def[symmetric] len_def iterate_def
        fill_positions_wf[OF assms(3)])

lemma fold_update_entries:
  assumes "(k, v) \<in> set (fold (\<lambda>x. AList.update (f x) (g x)) xs [])"
  shows "\<exists>x\<in>set xs. k = f x \<and> v = g x"
proof -
  let ?d = "fold (\<lambda>x. AList.update (f x) (g x)) xs []"
  have dist: "distinct (map fst ?d)"
    by (rule distinct_fold_update) simp
  with assms have m: "map_of ?d k = Some v" by simp
  have ex: "\<exists>x\<in>set xs. f x = k"
  proof (rule ccontr)
    assume "\<not> (\<exists>x\<in>set xs. f x = k)"
    then have "map_of ?d k = None" by (simp only: map_of_fold_update if_False map_of.simps)
    with m show False by simp
  qed
  define l where "l = last (filter (\<lambda>x. f x = k) xs)"
  from ex have v: "v = g l"
    using m unfolding l_def by (simp only: map_of_fold_update if_True option.inject)
  from ex have "filter (\<lambda>x. f x = k) xs \<noteq> []"
    by (simp add: filter_empty_conv)
  then have "l \<in> set (filter (\<lambda>x. f x = k) xs)"
    unfolding l_def by (rule last_in_set)
  then have "l \<in> set xs" and "k = f l"
    by simp_all
  with v show ?thesis by (intro bexI[of _ l] conjI)
qed

text \<open>
  Claim C9. Let the broker answer with a position list, resolved through the account's
  own currency, of well-formed positions. When the list is empty \<^verbatim>\<open>get_positions\<close>
  raises the exception of line 477 (the spec's NoPositionsError). Otherwise it returns a
  dict whose keys are exactly the symbols of the positions, each the second
  semicolon-delimited field of the position's instrument key, and each entry is the
  quantity, average cost, P&L amount, P&L percentage and market value of a position with
  that symbol.
\<close>

theorem get_positions_summary:
  assumes resp: "srv sent (positions_request account_id) = Inr j"
    and list: "position_list j = Inr (JList positions)"
    and wf: "\<forall>item\<in>set positions. well_formed_position item"
  shows "(positions = [] \<longrightarrow> fst (get_positions srv sent account_id) = Inl no_positions)
       \<and> (positions \<noteq> [] \<longrightarrow>
            (\<exists>return_dict.
               fst (get_positions srv sent account_id) = Inr (JObj return_dict)
               \<and> fst ` set return_dict = symbol_of ` set positions
               \<and> (\<forall>(symbol, entry)\<in>set return_dict.
                     \<exists>item\<in>set positions. symbol = symbol_of item \<and> entry = summary_of item)))"
proof -
  note u = get_positions_unfold[where srv = srv and sent = sent, OF resp list wf]
  let ?d = "fold (\<lambda>item. AList.update (symbol_of item) (summary_of item)) positions []"
  have a: "positions = [] \<longrightarrow> fst (get_positions srv sent account_id) = Inl no_positions"
    by (simp add: u)
  have r: "positions \<noteq> [] \<longrightarrow> fst (get_positions srv sent account_id) = Inr (JObj ?d)"
    by (simp add: u)
  have k: "fst ` set ?d = symbol_of ` set positions"
    by (simp add: keys_fold_update)
  have e: "\<forall>(symbol, entry)\<in>set ?d.
             \<exists>item\<in>set positions. symbol = symbol_of item \<and> entry = summary_of item"
    using fold_update_entries[of _ _ symbol_of summary_of positions] by (intro ballI) (simp add: split_beta)
  have "positions \<noteq> [] \<longrightarrow>
            (\<exists>return_dict.
               fst (get_positions srv sent account_id) = Inr (JObj return_dict)
               \<and> fst ` set return_dict = symbol_of ` set positions
               \<and> (\<forall>(symbol, entry)\<in>set return_dict.
                     \<exists>item\<in>set positions. symbol = symbol_of item \<and> entry = summary_of item))"
  proof
    assume "positions \<noteq> []"
    with r have "fst (get_positions srv sent account_id) = Inr (JObj ?d)" by simp
    with k e show "\<exists>return_dict.
               fst (get_positions srv sent account_id) = Inr (JObj return_dict)
               \<and> fst ` set return_dict = symbol_of ` set positions
               \<and> (\<forall>(symbol, entry)\<in>set return_dict.
                     \<exists>item\<in>set positions. symbol = symbol_of item \<and> entry = summary_of item)"
      by (intro exI[of _ ?d] conjI)
  qed
  with a show ?thesis by (rule conjI)
qed

text \<open>An account in Canadian dollars with two positions; and one with none.\<close>

theorem get_positions_summary_witness:
  "fst (get_positions
     (answering [(pos_url ''A1'',
        JObj [(''data'', JObj [(''accountAssetDetailList'', JList
          [JObj [(''account'', JObj [(''acctCurrCd'', JStr ''CAD'')]),
                 (''assetsDetailByCurrencyList'', JObj
                    [(''CAD'', JObj [(''positionList'', JList
                       [JObj [(''finInstrument'', JObj [(''quoteIdKey'', JStr ''AC;RY;CAN;'')]),
                              (''quantity'', JInt 10),
                              (''positionEval'', JObj [(''avgCostPrice'', JInt 120),
                                                       (''pnlAmt'', JInt 50),
                                                       (''pnlPerc'', JFloat 4.2),
                                                       (''marketValueAmt'', JInt 1250)])],
                        JObj [(''finInstrument'', JObj [(''quoteIdKey'', JStr ''AC;AAPL;USA;'')]),
                              (''quantity'', JInt 3),
                              (''positionEval'', JObj [(''avgCostPrice'', JInt 200),
                                                       (''pnlAmt'', JInt (- 30)),
                                                       (''pnlPerc'', JInt (- 5)),
                                                       (''marketValueAmt'', JInt 570)])]])])])]])])])])
     [] ''A1'')
   = Inr (JObj [(''RY'', JObj [(''quantity'', JInt 10), (''cost'', JInt 120), (''change'', JInt 50),
                               (''change_per'', JFloat 4.2), (''market_val'', JInt 1250)]),
                (''AAPL'', JObj [(''quantity'', JInt 3), (''cost'', JInt 200),
                                 (''change'', JInt (- 30)), (''change_per'', JInt (- 5)),
                                 (''market_val'', JInt 570)])])
   \<and> fst (get_positions
     (answering [(pos_url ''A1'',
        JObj [(''data'', JObj [(''accountAssetDetailList'', JList
          [JObj [(''account'', JObj [(''acctCurrCd'', JStr ''CAD'')]),
                 (''assetsDetailByCurrencyList'', JObj
                    [(''CAD'', JObj [(''positionList'', JList [])])])]])])])])
     [] ''A1'')
   = Inl no_positions"
proof -
  let ?p1 = "JObj [(''finInstrument'', JObj [(''quoteIdKey'', JStr ''AC;RY;CAN;'')]),
                              (''quantity'', JInt 10),
                              (''positionEval'', JObj [(''avgCostPrice'', JInt 120),
                                                       (''pnlAmt'', JInt 50),
                                                       (''pnlPerc'', JFloat 4.2),
                                                       (''marketValueAmt'', JInt 1250)])]"
  let ?p2 = "JObj [(''finInstrument'', JObj [(''quoteIdKey'', JStr ''AC;AAPL;USA;'')]),
                              (''quantity'', JInt 3),
                              (''positionEval'', JObj [(''avgCostPrice'', JInt 200),
                                                       (''pnlAmt'', JInt (- 30)),
                                                       (''pnlPerc'', JInt (- 5)),
                                                       (''marketValueAmt'', JInt 570)])]"
  let ?j = "\<lambda>ps. JObj [(''data'', JObj [(''accountAssetDetailList'', JList
          [JObj [(''account'', JObj [(''acctCurrCd'', JStr ''CAD'')]),
                 (''assetsDetailByCurrencyList'', JObj
                    [(''CAD'', JObj [(''positionList'', JList ps)])])]])])]"
  have resp: "answering [(pos_url ''A1'', ?j ps)] [] (positions_request ''A1'') = Inr (?j ps)" for ps
    by (simp add: answering_def positions_request_def)
  have list: "position_list (?j ps) = Inr (JList ps)" for ps
    by (simp add: position_list_def json_defs)
  have wf: "\<forall>item\<in>set [?p1, ?p2]. well_formed_position item"
    and wf0: "\<forall>item\<in>set []. well_formed_position item"
    by (simp_all add: well_formed_position_def)
  from get_positions_summary [where srv = "answering [(pos_url ''A1'', ?j [?p1, ?p2])]" and sent = "[]",
      OF resp list wf]
    get_positions_summary [where srv = "answering [(pos_url ''A1'', ?j [])]" and sent = "[]",
      OF resp list wf0]
  show ?thesis
    by (simp add: get_positions_def send_def answering_def position_list_def json_defs
          position_entry_def symbol_of_key_def)
qed

text \<open>
  Claim C10. The result of \<^verbatim>\<open>get_positions\<close> has one entry per symbol. For every position
  of the list, the entry under its symbol is the data of the last position of the list
  with that symbol; so when two positions share a symbol the earlier one does not appear,
  and the result has fewer entries than the list has positions.
\<close>

theorem get_positions_last_wins:
  assumes resp: "srv sent (positions_request account_id) = Inr j"
    and list: "position_list j = Inr (JList positions)"
    and wf: "\<forall>item\<in>set positions. well_formed_position item"
    and ne: "positions \<noteq> []"
  shows "\<exists>return_dict.
           fst (get_positions srv sent account_id) = Inr (JObj return_dict)
           \<and> distinct (map fst return_dict)
           \<and> (\<forall>item\<in>set positions.
                 map_of return_dict (symbol_of item)
                 = Some (summary_of (last (filter (\<lambda>other. symbol_of other = symbol_of item)
                                             positions))))
           \<and> length return_dict = card (symbol_of ` set positions)
           \<and> length return_dict \<le> length positions
           \<and> (\<not> distinct (map symbol_of positions) \<longrightarrow> length return_dict < length positions)"
proof -
  note u = get_positions_unfold[where srv = srv and sent = sent, OF resp list wf]
  let ?d = "fold (\<lambda>item. AList.update (symbol_of item) (summary_of item)) positions []"
  have r: "fst (get_positions srv sent account_id) = Inr (JObj ?d)"
    using ne by (simp add: u)
  have dist: "distinct (map fst ?d)"
    by (rule distinct_fold_update) simp
  have m: "\<forall>item\<in>set positions.
                 map_of ?d (symbol_of item)
                 = Some (summary_of (last (filter (\<lambda>other. symbol_of other = symbol_of item)
                                             positions)))"
    by (auto simp: map_of_fold_update)
  have "length ?d = length (map fst ?d)" by simp
  also have "\<dots> = card (set (map fst ?d))" using dist by (simp only: distinct_card)
  also have "\<dots> = card (symbol_of ` set positions)" by (simp add: keys_fold_update)
  finally have c: "length ?d = card (symbol_of ` set positions)" .
  have c': "card (symbol_of ` set positions) = card (set (map symbol_of positions))" by simp
  have le: "length ?d \<le> length positions"
    unfolding c c' using card_length[of "map symbol_of positions"] by simp
  have lt: "\<not> distinct (map symbol_of positions) \<longrightarrow> length ?d < length positions"
  proof
    assume nd: "\<not> distinct (map symbol_of positions)"
    have "card (set (map symbol_of positions)) \<noteq> length (map symbol_of positions)"
      using nd card_distinct by blast
    with le show "length ?d < length positions" unfolding c c' by simp
  qed
  from r dist m c le lt show ?thesis by blast
qed

text \<open>Three positions of which the first and the third are both \<^verbatim>\<open>AAPL\<close>: the result
  has two entries, and \<^verbatim>\<open>AAPL\<close> carries the data of the third.\<close>

theorem get_positions_last_wins_witness:
  "fst (get_positions
     (answering [(pos_url ''A1'',
        JObj [(''data'', JObj [(''accountAssetDetailList'', JList
          [JObj [(''account'', JObj [(''acctCurrCd'', JStr ''USD'')]),
                 (''assetsDetailByCurrencyList'', JObj
                    [(''USD'', JObj [(''positionList'', JList
                       [JObj [(''finInstrument'', JObj [(''quoteIdKey'', JStr ''AC;AAPL;USA;'')]),
                              (''quantity'', JInt 10),
                              (''positionEval'', JObj [(''avgCostPrice'', JInt 120),
                                                       (''pnlAmt'', JInt 50),
                                                       (''pnlPerc'', JInt 4),
                                                       (''marketValueAmt'', JInt 1250)])],
                        JObj [(''finInstrument'', JObj [(''quoteIdKey'', JStr ''AC;MSFT;USA;'')]),
                              (''quantity'', JInt 1),
                              (''positionEval'', JObj [(''avgCostPrice'', JInt 400),
                                                       (''pnlAmt'', JInt 5),
                                                       (''pnlPerc'', JInt 1),
                                                       (''marketValueAmt'', JInt 405)])],
                        JObj [(''finInstrument'', JObj [(''quoteIdKey'', JStr ''AC;AAPL;USA;'')]),
                              (''quantity'', JInt 3),
                              (''positionEval'', JObj [(''avgCostPrice'', JInt 200),
                                                       (''pnlAmt'', JInt (- 30)),
                                                       (''pnlPerc'', JInt (- 5)),
                                                       (''marketValueAmt'', JInt 570)])]])])])]])])])])
     [] ''A1'')
   = Inr (JObj [(''AAPL'', JObj [(''quantity'', JInt 3), (''cost'', JInt 200),
                                 (''change'', JInt (- 30)), (''change_per'', JInt (- 5)),
                                 (''market_val'', JInt 570)]),
                (''MSFT'', JObj [(''quantity'', JInt 1), (''cost'', JInt 400), (''change'', JInt 5),
                                 (''change_per'', JInt 1), (''market_val'', JInt 405)])])"
proof -
  let ?p1 = "JObj [(''finInstrument'', JObj [(''quoteIdKey'', JStr ''AC;AAPL;USA;'')]),
                              (''quantity'', JInt 10),
                              (''positionEval'', JObj [(''avgCostPrice'', JInt 120),
                                                       (''pnlAmt'', JInt 50),
                                                       (''pnlPerc'', JInt 4),
                                                       (''marketValueAmt'', JInt 1250)])]"
  let ?p2 = "JObj [(''finInstrument'', JObj [(''quoteIdKey'', JStr ''AC;MSFT;USA;'')]),
                              (''quantity'', JInt 1),
                              (''positionEval'', JObj [(''avgCostPrice'', JInt 400),
                                                       (''pnlAmt'', JInt 5),
                                                       (''pnlPerc'', JInt 1),
                                                       (''marketValueAmt'', JInt 405)])]"
  let ?p3 = "JObj [(''finInstrument'', JObj [(''quoteIdKey'', JStr ''AC;AAPL;USA;'')]),
                              (''quantity'', JInt 3),
                              (''positionEval'', JObj [(''avgCostPrice'', JInt 200),
                                                       (''pnlAmt'', JInt (- 30)),
                                                       (''pnlPerc'', JInt (- 5)),
                                                       (''marketValueAmt'', JInt 570)])]"
  let ?j = "JObj [(''data'', JObj [(''accountAssetDetailList'', JList
          [JObj [(''account'', JObj [(''acctCurrCd'', JStr ''USD'')]),
                 (''assetsDetailByCurrencyList'', JObj
                    [(''USD'', JObj [(''positionList'', JList [?p1, ?p2, ?p3])])])]])])]"
  have resp: "answering [(pos_url ''A1'', ?j)] [] (positions_request ''A1'') = Inr ?j"
    by (simp add: answering_def positions_request_def)
  have list: "position_list ?j = Inr (JList [?p1, ?p2, ?p3])"
    by (simp add: position_list_def json_defs)
  have wf: "\<forall>item\<in>set [?p1, ?p2, ?p3]. well_formed_position item"
    by (simp add: well_formed_position_def)
  have ne: "[?p1, ?p2, ?p3] \<noteq> []" by simp
  from get_positions_last_wins [where srv = "answering [(pos_url ''A1'', ?j)]" and sent = "[]", OF resp list wf ne]
  show ?thesis
    by (simp add: get_positions_def send_def answering_def position_list_def json_defs
          position_entry_def symbol_of_key_def)
qed

end
